theory Spec2Isabelle
  imports Main "HOL-Library.AList"
begin

section \<open>Values exchanged with the forge\<close>

text \<open>
  The forge answers with JSON, which the client reads as Python dictionaries, lists,
  strings, integers, booleans and \<open>None\<close>. A dictionary is an association list in
  insertion order, and a dictionary of Python has each key once. The payloads of the
  endpoints used here carry no floating point numbers.
\<close>

datatype json =
    JNull
  | JBool bool
  | JInt int
  | JStr string
  | JList "json list"
  | JDict "(string \<times> json) list"

text \<open>
  The exceptions of \<open>ogr.exceptions\<close> that \<open>project.py\<close> raises or catches, and the
  built-in exceptions of Python that its expressions can raise. \<open>FileNotFoundError\<close> is
  raised with a message and, in one place, with the exception it wraps. \<open>IllTyped\<close>
  marks a forge answer that puts a value of another JSON type where the constructor
  \<open>PagureProject\<close> or a \<open>Set[str]\<close> is annotated to hold a string: such answers are
  outside the model.
\<close>

datatype error =
    OgrException string
  | PagureAPIException string
  | OperationNotSupported string
  | OurPagureRawRequest string
  | FileNotFoundError string "error option"
  | KeyError string
  | TypeError
  | AttributeError
  | UnicodeDecodeError
  | IllTyped

text \<open>Python's \<open>bool(x)\<close>.\<close>

fun truthy :: "json \<Rightarrow> bool" where
  "truthy JNull = False"
| "truthy (JBool b) = b"
| "truthy (JInt i) = (i \<noteq> 0)"
| "truthy (JStr s) = (s \<noteq> [])"
| "truthy (JList xs) = (xs \<noteq> [])"
| "truthy (JDict kvs) = (kvs \<noteq> [])"

text \<open>Python's \<open>x[k]\<close> for a string \<open>k\<close>.\<close>

fun getitem :: "json \<Rightarrow> string \<Rightarrow> error + json" where
  "getitem (JDict kvs) k = (case map_of kvs k of None \<Rightarrow> Inl (KeyError k) | Some v \<Rightarrow> Inr v)"
| "getitem _ k = Inl TypeError"

definition and_then :: "error + 'a \<Rightarrow> ('a \<Rightarrow> error + 'b) \<Rightarrow> error + 'b" where
  "and_then r f = (case r of Inl e \<Rightarrow> Inl e | Inr x \<Rightarrow> f x)"

text \<open>\<open>x[k1][k2]\<close>.\<close>

definition getitem2 :: "json \<Rightarrow> string \<Rightarrow> string \<Rightarrow> error + json" where
  "getitem2 x k1 k2 = and_then (getitem x k1) (\<lambda>y. getitem y k2)"

text \<open>
  What a \<open>for\<close> loop, a comprehension or \<open>set.update\<close> iterates over: the elements of
  a list, the characters of a string, the keys of a dictionary.
\<close>

fun py_iter :: "json \<Rightarrow> error + json list" where
  "py_iter (JList xs) = Inr xs"
| "py_iter (JStr s) = Inr (map (\<lambda>c. JStr [c]) s)"
| "py_iter (JDict kvs) = Inr (map (\<lambda>kv. JStr (fst kv)) kvs)"
| "py_iter _ = Inl TypeError"

text \<open>
  An element entering a \<open>Set[str]\<close>: lists and dictionaries are unhashable
  (\<open>TypeError\<close>).
\<close>

fun set_element :: "json \<Rightarrow> error + string" where
  "set_element (JStr s) = Inr s"
| "set_element (JList xs) = Inl TypeError"
| "set_element (JDict kvs) = Inl TypeError"
| "set_element _ = Inl IllTyped"

fun set_elements :: "json list \<Rightarrow> error + string list" where
  "set_elements [] = Inr []"
| "set_elements (x # xs) =
     and_then (set_element x) (\<lambda>s. and_then (set_elements xs) (\<lambda>ss. Inr (s # ss)))"

text \<open>\<open>users.update(x)\<close>, returning the updated set.\<close>

definition set_update :: "string set \<Rightarrow> json \<Rightarrow> error + string set" where
  "set_update users x =
     and_then (py_iter x) (\<lambda>xs. and_then (set_elements xs) (\<lambda>ss. Inr (users \<union> set ss)))"

text \<open>A value stored where \<open>str\<close>, resp. \<open>Optional[str]\<close>, is annotated.\<close>

fun as_str :: "json \<Rightarrow> error + string" where
  "as_str (JStr s) = Inr s"
| "as_str _ = Inl IllTyped"

fun as_opt_str :: "json \<Rightarrow> error + string option" where
  "as_opt_str JNull = Inr None"
| "as_opt_str (JStr s) = Inr (Some s)"
| "as_opt_str _ = Inl IllTyped"

text \<open>Python's \<open>t in s\<close> on strings: \<open>t\<close> occurs in \<open>s\<close> as a substring.\<close>

fun substring :: "string \<Rightarrow> string \<Rightarrow> bool" where
  "substring t [] = (t = [])"
| "substring t (c # cs) = (take (length t) (c # cs) = t \<or> substring t cs)"

text \<open>Python's \<open>u in x\<close> for a string \<open>u\<close>.\<close>

fun str_in :: "string \<Rightarrow> json \<Rightarrow> error + bool" where
  "str_in u (JStr s) = Inr (substring u s)"
| "str_in u (JList xs) = Inr (JStr u \<in> set xs)"
| "str_in u (JDict kvs) = Inr (u \<in> set (map fst kvs))"
| "str_in u _ = Inl TypeError"

section \<open>The service and the requests it sends\<close>

text \<open>
  Modelled from the spec: \<open>get_api_url\<close> of the service (\<open>ogr.services.pagure\<close>, not in
  the module) builds the request path from its path segments, optionally prefixed with
  the API-endpoint base path. A URL is kept as what it is built from: the segments in
  order (\<open>None\<close> for an absent namespace) and the flag.
\<close>

datatype url = Url (segments: "string option list") (api_endpoint_part: bool)

definition get_api_url :: "string option list \<Rightarrow> bool \<Rightarrow> url" where
  "get_api_url args add_api_endpoint_part = Url args add_api_endpoint_part"

text \<open>
  One call of \<open>call_api\<close> (\<open>raw = False\<close>) or \<open>call_api_raw\<close> (\<open>raw = True\<close>) with its
  keyword arguments; \<open>None\<close> where the caller passes none.
\<close>

record request =
  raw :: bool
  req_url :: url
  req_method :: "string option"
  req_params :: "json option"
  req_data :: "json option"

text \<open>
  Modelled from the spec: \<open>RequestResponse\<close> (\<open>ogr.utils\<close>, not in the module) is the
  raw response with its \<open>ok\<close>, \<open>reason\<close> and \<open>content\<close>; \<open>content\<close> is a byte string.
  A raw request returns such a response or none: the absent response, which
  \<open>not result\<close> tests, is \<open>None\<close>.
\<close>

record request_response =
  ok :: bool
  reason :: string
  content :: string

text \<open>
  A project handle: the attributes that \<open>PagureProject.__init__\<close> sets. The service is
  passed to every operation instead of being stored.
\<close>

record project =
  repo :: string
  namespace :: "string option"
  username :: "string option"
  is_fork :: bool
  read_only :: bool

text \<open>
  The service, which is not part of the module, is a parameter. The forge answers a
  request as a function of the requests sent before it, so that an answer may change
  after a request that changes the forge. \<open>get_username\<close> is
  \<open>service.user.get_username()\<close>, which may send requests of its own.
  \<open>ro_fork_create\<close> and \<open>ro_set_commit_status\<close> are the substitutes
  \<open>GitProjectReadOnly.fork_create\<close> and \<open>GitProjectReadOnly.set_commit_status\<close>;
  \<open>decode\<close> is \<open>bytes.decode\<close> of the Python runtime, \<open>None\<close> where it raises
  \<open>UnicodeDecodeError\<close>. \<open>CommitFlag\<close> and \<open>GitTag\<close>
  (\<open>ogr.abstract\<close>) are the value objects built from the forge's answers; their fields
  hold what the answer holds.
\<close>

record commit_flag =
  flag_commit :: json
  flag_comment :: json
  flag_state :: json
  flag_context :: json
  flag_url :: json
  flag_uid :: json

record git_tag =
  name :: string
  commit_sha :: json

record service =
  svc_read_only :: bool
  respond :: "request list \<Rightarrow> request \<Rightarrow> error + json"
  respond_raw :: "request list \<Rightarrow> request \<Rightarrow> error + request_response option"
  get_username :: "request list \<Rightarrow> (error + string) \<times> request list"
  decode :: "string \<Rightarrow> string option"
  ro_fork_create :: "project \<Rightarrow> error + project"
  ro_set_commit_status ::
    "project \<Rightarrow> string \<Rightarrow> string \<Rightarrow> string \<Rightarrow> string \<Rightarrow> string \<Rightarrow> int option \<Rightarrow> string option
       \<Rightarrow> error + commit_flag"

section \<open>Operations\<close>

text \<open>
  A method of \<open>PagureProject\<close> runs on the handle \<open>self\<close> and on the list of requests
  sent so far. It returns a value or raises, and leaves the handle (whose \<open>_username\<close>
  it may have filled in) and the extended list of requests.
\<close>

type_synonym 'a act = "project \<Rightarrow> request list \<Rightarrow> (error + 'a) \<times> project \<times> request list"

definition ret :: "'a \<Rightarrow> 'a act" where
  "ret x self s = (Inr x, self, s)"

definition raise :: "error \<Rightarrow> 'a act" where
  "raise e self s = (Inl e, self, s)"

definition lift :: "error + 'a \<Rightarrow> 'a act" where
  "lift r self s = (r, self, s)"

definition seq :: "'a act \<Rightarrow> ('a \<Rightarrow> 'b act) \<Rightarrow> 'b act" where
  "seq m f self s =
     (case m self s of
        (Inl e, self', s') \<Rightarrow> (Inl e, self', s')
      | (Inr x, self', s') \<Rightarrow> f x self' s')"

text \<open>
  A method called on another handle \<open>obj\<close>: its result comes with \<open>obj\<close> as the call
  left it.
\<close>

definition on_obj :: "project \<Rightarrow> 'a act \<Rightarrow> ('a \<times> project) act" where
  "on_obj obj m self s =
     (case m obj s of
        (Inl e, obj', s') \<Rightarrow> (Inl e, self, s')
      | (Inr x, obj', s') \<Rightarrow> (Inr (x, obj'), self, s'))"

text \<open>
  Modelled from the spec: \<open>call_api\<close> and \<open>call_api_raw\<close> of the service (not in the
  module) send the request to the forge and return its answer, or raise.
\<close>

definition call_api ::
  "service \<Rightarrow> url \<Rightarrow> string option \<Rightarrow> json option \<Rightarrow> json option \<Rightarrow> json act" where
  "call_api svc u m p d self s =
     (let r = \<lparr>raw = False, req_url = u, req_method = m, req_params = p, req_data = d\<rparr>
      in (respond svc s r, self, s @ [r]))"

definition call_api_raw ::
  "service \<Rightarrow> url \<Rightarrow> string option \<Rightarrow> json option \<Rightarrow> json option
     \<Rightarrow> request_response option act" where
  "call_api_raw svc u m p d self s =
     (let r = \<lparr>raw = True, req_url = u, req_method = m, req_params = p, req_data = d\<rparr>
      in (respond_raw svc s r, self, s @ [r]))"

text \<open>\<open>PagureProject(repo, namespace, service, username, is_fork)\<close>.\<close>

definition PagureProject ::
  "service \<Rightarrow> string \<Rightarrow> string option \<Rightarrow> string option \<Rightarrow> bool \<Rightarrow> project" where
  "PagureProject svc r ns u f =
     \<lparr>repo = r, namespace = ns, username = u, is_fork = f, read_only = svc_read_only svc\<rparr>"

text \<open>The property \<open>_user\<close>: \<open>not self._username\<close> holds for \<open>None\<close> and for \<open>""\<close>.\<close>

definition user :: "service \<Rightarrow> string act" where
  "user svc self s =
     (if username self = None \<or> username self = Some [] then
        (case get_username svc s of
           (Inl e, s') \<Rightarrow> (Inl e, self, s')
         | (Inr u, s') \<Rightarrow> (Inr u, self\<lparr>username := Some u\<rparr>, s'))
      else (Inr (the (username self)), self, s))"

definition get_project_url :: "service \<Rightarrow> string list \<Rightarrow> bool \<Rightarrow> bool \<Rightarrow> url act" where
  "get_project_url svc args add_fork_part add_api_endpoint_part self s =
     seq (if is_fork self \<and> add_fork_part
          then seq (user svc) (\<lambda>u. ret ([] @ [Some ''fork'', Some u]))
          else ret [])
       (\<lambda>additional_parts self'.
          ret (get_api_url (additional_parts @ [namespace self', Some (repo self')] @ map Some args)
                 add_api_endpoint_part) self')
       self s"

definition call_project_api ::
  "service \<Rightarrow> string list \<Rightarrow> bool \<Rightarrow> bool \<Rightarrow> string option \<Rightarrow> json option \<Rightarrow> json option
     \<Rightarrow> json act" where
  "call_project_api svc args add_fork_part add_api_endpoint_part m p d =
     seq (get_project_url svc args add_fork_part add_api_endpoint_part)
       (\<lambda>request_url. call_api svc request_url m p d)"

definition call_project_api_raw ::
  "service \<Rightarrow> string list \<Rightarrow> bool \<Rightarrow> bool \<Rightarrow> string option \<Rightarrow> json option \<Rightarrow> json option
     \<Rightarrow> request_response option act" where
  "call_project_api_raw svc args add_fork_part add_api_endpoint_part m p d =
     seq (get_project_url svc args add_fork_part add_api_endpoint_part)
       (\<lambda>request_url. call_api_raw svc request_url m p d)"

definition get_project_info :: "service \<Rightarrow> json act" where
  "get_project_info svc = call_project_api svc [] True True (Some ''GET'') None None"

definition who_can_close_issue :: "service \<Rightarrow> string set act" where
  "who_can_close_issue svc =
     seq (get_project_info svc) (\<lambda>project.
     seq (lift (and_then (getitem2 project ''access_users'' ''admin'') (set_update {}))) (\<lambda>users.
     seq (lift (and_then (getitem2 project ''access_users'' ''commit'') (set_update users))) (\<lambda>users.
     seq (lift (and_then (getitem2 project ''access_users'' ''ticket'') (set_update users))) (\<lambda>users.
     seq (lift (and_then (getitem2 project ''access_users'' ''owner'') (set_update users))) (\<lambda>users.
     ret users)))))"

definition who_can_merge_pr :: "service \<Rightarrow> string set act" where
  "who_can_merge_pr svc =
     seq (get_project_info svc) (\<lambda>project.
     seq (lift (and_then (getitem2 project ''access_users'' ''admin'') (set_update {}))) (\<lambda>users.
     seq (lift (and_then (getitem2 project ''access_users'' ''commit'') (set_update users))) (\<lambda>users.
     seq (lift (and_then (getitem2 project ''access_users'' ''owner'') (set_update users))) (\<lambda>users.
     ret users))))"

definition commit_comment ::
  "service \<Rightarrow> string \<Rightarrow> string \<Rightarrow> string option \<Rightarrow> int option \<Rightarrow> unit act" where
  "commit_comment svc commit body filename row =
     raise (OperationNotSupported ''Commit comments are not supported on Pagure.'')"

text \<open>
  Modelled from the spec: the decorator \<open>if_readonly\<close> (\<open>ogr.read_only\<close>, not in the
  module) takes the real operation and a fallback; when the client is configured
  read-only the call is redirected to the fallback, a no-op substitute that performs no
  mutation, and otherwise the real operation runs.
\<close>

definition if_readonly :: "(project \<Rightarrow> error + 'a) \<Rightarrow> 'a act \<Rightarrow> 'a act" where
  "if_readonly return_function func self s =
     (if read_only self then lift (return_function self) self s else func self s)"

text \<open>
  \<open>create_pr\<close> delegates to \<open>PagurePullRequest.create\<close> (\<open>pull_request.py\<close>, not in the
  module), which with the substitute \<open>GitProjectReadOnly.create_pr\<close> is a parameter.
\<close>

definition create_pr ::
  "(project \<Rightarrow> string \<Rightarrow> string \<Rightarrow> string \<Rightarrow> string \<Rightarrow> string option \<Rightarrow> error + 'pr)
     \<Rightarrow> (string \<Rightarrow> string \<Rightarrow> string \<Rightarrow> string \<Rightarrow> 'pr act)
     \<Rightarrow> string \<Rightarrow> string \<Rightarrow> string \<Rightarrow> string \<Rightarrow> string option \<Rightarrow> 'pr act" where
  "create_pr ro_create_pr PagurePullRequest_create title body target_branch source_branch
       fork_username =
     if_readonly
       (\<lambda>self. ro_create_pr self title body target_branch source_branch fork_username)
       (PagurePullRequest_create title body target_branch source_branch)"

definition opt_str_json :: "string option \<Rightarrow> json" where
  "opt_str_json x = (case x of None \<Rightarrow> JNull | Some v \<Rightarrow> JStr v)"

definition construct_fork_project :: "service \<Rightarrow> project act" where
  "construct_fork_project svc =
     seq (user svc) (\<lambda>u self.
       ret (PagureProject svc (repo self) (namespace self) (Some u) True) self)"

definition fork_create :: "service \<Rightarrow> project act" where
  "fork_create svc =
     if_readonly (ro_fork_create svc)
       (\<lambda>self.
          seq (call_api svc (get_api_url [Some ''fork''] True) (Some ''POST'') None
                 (Some (JDict [(''repo'', JStr (repo self)),
                               (''namespace'', opt_str_json (namespace self)),
                               (''wait'', JBool True)])))
            (\<lambda>_. construct_fork_project svc) self)"

definition exists :: "service \<Rightarrow> bool act" where
  "exists svc =
     seq (call_project_api_raw svc [] True True None None None)
       (\<lambda>response. case response of None \<Rightarrow> raise AttributeError | Some r \<Rightarrow> ret (ok r))"

definition get_is_fork_from_api :: "service \<Rightarrow> bool act" where
  "get_is_fork_from_api svc =
     seq (get_project_info svc) (\<lambda>info.
     seq (lift (getitem info ''parent'')) (\<lambda>p.
     ret (truthy p)))"

text \<open>The property \<open>parent\<close>.\<close>

definition parent :: "service \<Rightarrow> project option act" where
  "parent svc =
     seq (get_is_fork_from_api svc) (\<lambda>b.
       if b then
         seq (get_project_info svc) (\<lambda>info.
         seq (lift (and_then (getitem2 info ''parent'' ''namespace'') as_opt_str)) (\<lambda>ns self.
         ret (Some (PagureProject svc (repo self) ns None False)) self))
       else ret None)"

text \<open>
  \<open>bool(f.exists() and f.parent.exists())\<close>: the right operand is evaluated only when
  the left one is true, and \<open>f.parent\<close> may be \<open>None\<close>, which has no attribute \<open>exists\<close>.
\<close>

definition is_forked :: "service \<Rightarrow> bool act" where
  "is_forked svc =
     seq (construct_fork_project svc) (\<lambda>f.
     seq (on_obj f (exists svc)) (\<lambda>(e, f1).
       if \<not> e then ret False
       else
         seq (on_obj f1 (parent svc)) (\<lambda>(p, f2).
           case p of
             None \<Rightarrow> raise AttributeError
           | Some pp \<Rightarrow> seq (on_obj pp (exists svc)) (\<lambda>(e2, pp'). ret e2))))"

text \<open>
  The comprehension of \<open>get_forks\<close>: for each entry the three subscripts are evaluated
  in the order of the constructor's arguments.
\<close>

fun fork_objects :: "service \<Rightarrow> json list \<Rightarrow> error + project list" where
  "fork_objects svc [] = Inr []"
| "fork_objects svc (fork # forks) =
     and_then (getitem fork ''name'') (\<lambda>r.
     and_then (getitem fork ''namespace'') (\<lambda>ns.
     and_then (getitem2 fork ''user'' ''name'') (\<lambda>u.
     and_then (as_str r) (\<lambda>r'.
     and_then (as_opt_str ns) (\<lambda>ns'.
     and_then (as_opt_str u) (\<lambda>u'.
     and_then (fork_objects svc forks) (\<lambda>rest.
     Inr (PagureProject svc r' ns' u' True # rest))))))))"

definition get_forks :: "service \<Rightarrow> project list act" where
  "get_forks svc self =
     seq (call_api svc (get_api_url [Some ''projects''] True) None
            (Some (JDict [(''fork'', JBool True), (''pattern'', JStr (repo self))])) None)
       (\<lambda>projects_response.
          lift (and_then (and_then (getitem projects_response ''projects'') py_iter)
                  (fork_objects svc)))
       self"

text \<open>The loop of \<open>get_fork\<close> over the forks; \<open>None\<close> when it ends without \<open>return\<close>.\<close>

fun scan_forks :: "service \<Rightarrow> project list \<Rightarrow> project option act" where
  "scan_forks svc [] = ret None"
| "scan_forks svc (fork # forks) =
     seq (on_obj fork (get_project_info svc)) (\<lambda>(fork_info, fork').
     seq (user svc) (\<lambda>u.
     seq (lift (and_then (getitem2 fork_info ''user'' ''name'') (str_in u))) (\<lambda>b.
       if b then ret (Some fork') else scan_forks svc forks)))"

text \<open>\<open>get_fork\<close>; the message it logs when it returns \<open>None\<close> is not modelled.\<close>

definition get_fork :: "service \<Rightarrow> bool \<Rightarrow> project option act" where
  "get_fork svc create self =
     (if is_fork self then raise (OgrException ''Cannot create fork from fork.'')
      else
        seq (get_forks svc) (\<lambda>forks.
        seq (scan_forks svc forks) (\<lambda>found.
          case found of
            Some fork \<Rightarrow> ret (Some fork)
          | None \<Rightarrow>
              seq (is_forked svc) (\<lambda>forked.
                if \<not> forked then
                  (if create then seq (fork_create svc) (\<lambda>f. ret (Some f)) else ret None)
                else seq (construct_fork_project svc) (\<lambda>f. ret (Some f))))))
       self"

definition commit_status_from_pagure_dict :: "json \<Rightarrow> json \<Rightarrow> error + commit_flag" where
  "commit_status_from_pagure_dict status_dict u =
     and_then (getitem status_dict ''commit_hash'') (\<lambda>c.
     and_then (getitem status_dict ''comment'') (\<lambda>cm.
     and_then (getitem status_dict ''status'') (\<lambda>st.
     and_then (getitem status_dict ''username'') (\<lambda>ctx.
     and_then (getitem status_dict ''url'') (\<lambda>tu.
     Inr \<lparr>flag_commit = c, flag_comment = cm, flag_state = st, flag_context = ctx,
          flag_url = tu, flag_uid = u\<rparr>)))))"

text \<open>\<open>try: ... except OurPagureRawRequest as ex: ...\<close>\<close>

definition except_OurPagureRawRequest :: "'a act \<Rightarrow> (error \<Rightarrow> 'a act) \<Rightarrow> 'a act" where
  "except_OurPagureRawRequest body handler self s =
     (case body self s of
        (Inl (OurPagureRawRequest m), self', s') \<Rightarrow> handler (OurPagureRawRequest m) self' s'
      | r \<Rightarrow> r)"

definition quoted :: "string \<Rightarrow> string" where
  "quoted x = [CHR 0x27] @ x @ [CHR 0x27]"

definition get_file_content :: "service \<Rightarrow> string \<Rightarrow> string \<Rightarrow> string act" where
  "get_file_content svc path ref =
     except_OurPagureRawRequest
       (seq (call_project_api_raw svc [''raw'', ref, ''f'', path] True False None None None)
          (\<lambda>result.
             case result of
               None \<Rightarrow>
                 raise (FileNotFoundError
                   (''File '' @ quoted path @ '' on '' @ ref @ '' not found'') None)
             | Some r \<Rightarrow>
                 if reason r = ''NOT FOUND'' then
                   raise (FileNotFoundError
                     (''File '' @ quoted path @ '' on '' @ ref @ '' not found'') None)
                 else
                   (case decode svc (content r) of
                      None \<Rightarrow> raise UnicodeDecodeError
                    | Some text \<Rightarrow> ret text)))
       (\<lambda>ex. raise (FileNotFoundError
                 (''Problem with getting file '' @ quoted path @ '' on '' @ ref) (Some ex)))"

text \<open>Python's \<open>x.items()\<close>: only a dictionary has the attribute.\<close>

fun items :: "json \<Rightarrow> error + (string \<times> json) list" where
  "items (JDict kvs) = Inr kvs"
| "items _ = Inl AttributeError"

definition get_tags :: "service \<Rightarrow> git_tag list act" where
  "get_tags svc =
     seq (call_project_api svc [''git'', ''tags''] True True None
            (Some (JDict [(''with_commits'', JBool True)])) None) (\<lambda>response.
     seq (lift (and_then (getitem response ''tags'') items)) (\<lambda>tags.
     ret (map (\<lambda>(n, c). \<lparr>name = n, commit_sha = c\<rparr>) tags)))"

text \<open>
  A dictionary comprehension stores its pairs one after the other; storing under a key
  that is there replaces the value and keeps the key's place.
\<close>

definition get_tags_dict :: "service \<Rightarrow> (string \<times> git_tag) list act" where
  "get_tags_dict svc =
     seq (call_project_api svc [''git'', ''tags''] True True None
            (Some (JDict [(''with_commits'', JBool True)])) None) (\<lambda>response.
     seq (lift (and_then (getitem response ''tags'') items)) (\<lambda>tags.
     ret (foldl (\<lambda>tags_dict (n, c). AList.update n \<lparr>name = n, commit_sha = c\<rparr> tags_dict)
            [] tags)))"

definition get_sha_from_tag :: "service \<Rightarrow> string \<Rightarrow> json act" where
  "get_sha_from_tag svc tag_name =
     seq (get_tags_dict svc) (\<lambda>tags_dict.
       if tag_name \<notin> set (map fst tags_dict) then
         raise (PagureAPIException (''Tag '' @ quoted tag_name @ '' not found.''))
       else
         (case map_of tags_dict tag_name of
            None \<Rightarrow> raise (KeyError tag_name)
          | Some tag \<Rightarrow> ret (commit_sha tag)))"

text \<open>
  \<open>set_commit_status\<close>: \<open>if percent:\<close> and \<open>if uid:\<close> test the truth value of the
  argument, which is false for \<open>None\<close>, for \<open>0\<close> and for \<open>""\<close>.
\<close>

definition commit_status_data ::
  "string \<Rightarrow> string \<Rightarrow> string \<Rightarrow> string \<Rightarrow> int option \<Rightarrow> string option \<Rightarrow> (string \<times> json) list" where
  "commit_status_data state target_url description ctx percent uid =
     (let data = [(''username'', JStr ctx), (''comment'', JStr description),
                  (''url'', JStr target_url), (''status'', JStr state)];
          data = (case percent of
                    None \<Rightarrow> data
                  | Some p \<Rightarrow> if p \<noteq> 0 then AList.update ''percent'' (JInt p) data else data);
          data = (case uid of
                    None \<Rightarrow> data
                  | Some u \<Rightarrow> if u \<noteq> [] then AList.update ''uid'' (JStr u) data else data)
      in data)"

definition set_commit_status ::
  "service \<Rightarrow> string \<Rightarrow> string \<Rightarrow> string \<Rightarrow> string \<Rightarrow> string \<Rightarrow> int option \<Rightarrow> string option
     \<Rightarrow> commit_flag act" where
  "set_commit_status svc commit state target_url description ctx percent uid =
     if_readonly
       (\<lambda>self. ro_set_commit_status svc self commit state target_url description ctx percent uid)
       (seq (call_project_api svc [''c'', commit, ''flag''] True True (Some ''POST'') None
               (Some (JDict (commit_status_data state target_url description ctx percent uid))))
          (\<lambda>response.
             lift (and_then (getitem response ''flag'') (\<lambda>flag.
                   and_then (getitem response ''uid'') (\<lambda>u.
                   commit_status_from_pagure_dict flag u)))))"

section \<open>An example forge\<close>

text \<open>
  A forge with one project, whose answers are those of the scenarios: the project info
  with its four access levels (and the given \<open>parent\<close>), one tag, and the flag that
  setting a commit status returns. Three file names stand for the three ways in which
  fetching a file fails.
\<close>

definition example_info :: "json \<Rightarrow> json" where
  "example_info parent_info =
     JDict [(''access_users'',
               JDict [(''admin'', JList [JStr ''a'']), (''commit'', JList [JStr ''b'']),
                      (''ticket'', JList [JStr ''c'']), (''owner'', JList [JStr ''d''])]),
            (''parent'', parent_info),
            (''user'', JDict [(''name'', JStr ''d'')])]"

definition example_tags :: json where
  "example_tags = JDict [(''tags'', JDict [(''v1.0'', JStr ''abc123'')])]"

definition example_flag :: json where
  "example_flag =
     JDict [(''flag'',
               JDict [(''commit_hash'', JStr ''sha1''), (''comment'', JStr ''d''),
                      (''status'', JStr ''success''), (''username'', JStr ''ctx''),
                      (''url'', JStr ''u'')]),
            (''uid'', JStr ''f00'')]"

definition example_respond :: "json \<Rightarrow> request list \<Rightarrow> request \<Rightarrow> error + json" where
  "example_respond parent_info s r =
     (if last (segments (req_url r)) = Some ''tags'' then Inr example_tags
      else if last (segments (req_url r)) = Some ''flag'' then Inr example_flag
      else Inr (example_info parent_info))"

definition example_respond_raw ::
  "request list \<Rightarrow> request \<Rightarrow> error + request_response option" where
  "example_respond_raw s r =
     (if last (segments (req_url r)) = Some ''absent.txt'' then Inr None
      else if last (segments (req_url r)) = Some ''gone.txt'' then
        Inr (Some \<lparr>ok = False, reason = ''NOT FOUND'', content = []\<rparr>)
      else if last (segments (req_url r)) = Some ''down.txt'' then
        Inl (OurPagureRawRequest ''connection refused'')
      else Inr (Some \<lparr>ok = True, reason = ''OK'', content = ''hello''\<rparr>))"

definition example_ro_flag ::
  "project \<Rightarrow> string \<Rightarrow> string \<Rightarrow> string \<Rightarrow> string \<Rightarrow> string \<Rightarrow> int option \<Rightarrow> string option
     \<Rightarrow> error + commit_flag" where
  "example_ro_flag self commit state target_url description ctx percent uid =
     Inr \<lparr>flag_commit = JStr commit, flag_comment = JNull, flag_state = JStr state,
          flag_context = JStr ctx, flag_url = JNull, flag_uid = JNull\<rparr>"

definition example_service :: "bool \<Rightarrow> json \<Rightarrow> service" where
  "example_service ro parent_info =
     \<lparr>svc_read_only = ro,
      respond = example_respond parent_info,
      respond_raw = example_respond_raw,
      get_username = (\<lambda>s. (Inr ''alice'', s)),
      decode = Some,
      ro_fork_create = Inr,
      ro_set_commit_status = example_ro_flag\<rparr>"

definition example_project :: "bool \<Rightarrow> project" where
  "example_project ro = PagureProject (example_service ro JNull) ''ogr'' (Some ''packit'') None False"

section \<open>Basic facts\<close>

lemma seq_ret [simp]: "seq (ret x) f = f x"
  by (rule ext)+ (simp add: seq_def ret_def)

lemma seq_raise [simp]: "seq (raise e) f = raise e"
  by (rule ext)+ (simp add: seq_def raise_def)

lemma seq_lift_Inr [simp]: "seq (lift (Inr x)) f = f x"
  by (rule ext)+ (simp add: seq_def lift_def)

lemma seq_lift_Inl [simp]: "seq (lift (Inl e)) f = raise e"
  by (rule ext)+ (simp add: seq_def lift_def raise_def)

lemma and_then_Inr [simp]: "and_then (Inr x) f = f x"
  by (simp add: and_then_def)

lemma and_then_Inl [simp]: "and_then (Inl e) f = Inl e"
  by (simp add: and_then_def)

lemmas example_defs =
  example_service_def example_project_def PagureProject_def example_respond_def
  example_respond_raw_def example_info_def example_tags_def example_flag_def example_ro_flag_def

text \<open>A handle whose user name is set answers \<open>_user\<close> without asking the service.\<close>

lemma user_set:
  "username self = Some who \<Longrightarrow> who \<noteq> [] \<Longrightarrow> user svc self s = (Inr who, self, s)"
  by (simp add: user_def)

text \<open>\<open>_user\<close> changes nothing of the handle but the cached user name.\<close>

lemma user_frame:
  "user svc self s = (r, self', s') \<Longrightarrow>
     namespace self' = namespace self \<and> repo self' = repo self \<and> is_fork self' = is_fork self
       \<and> read_only self' = read_only self"
  by (auto simp: user_def split: if_splits prod.splits sum.splits)

lemma get_project_url_not_fork:
  "\<not> is_fork self \<Longrightarrow>
     get_project_url svc args add_fork_part add_api_endpoint_part self s =
       (Inr (get_api_url (namespace self # Some (repo self) # map Some args) add_api_endpoint_part),
        self, s)"
  by (simp add: get_project_url_def ret_def)

lemma get_project_url_fork:
  "is_fork self \<Longrightarrow>
     get_project_url svc args True add_api_endpoint_part self s =
       (case user svc self s of
          (Inl e, self', s') \<Rightarrow> (Inl e, self', s')
        | (Inr who, self', s') \<Rightarrow>
            (Inr (get_api_url
                    (Some ''fork'' # Some who # namespace self # Some (repo self) # map Some args)
                    add_api_endpoint_part), self', s'))"
  by (auto simp: get_project_url_def seq_def ret_def split: prod.splits sum.splits
      dest: user_frame)

section \<open>The URL of a project\<close>

text \<open>
  C1, amended. On a handle that is not a fork, \<open>_get_project_url\<close> adds no fork prefix,
  for either value of \<open>add_fork_part\<close>: the URL is built from the namespace, the
  repository and the extra segments alone, so that it has a segment \<open>fork\<close> only if one
  of these is \<open>fork\<close> itself. On a fork, with \<open>add_fork_part\<close> set, a URL that is built
  has the segments \<open>fork\<close> and the user name (the one of the handle, or the one that
  \<open>_user\<close> resolves) immediately before the namespace and the repository; it is built
  whenever the handle has a user name.
\<close>

theorem get_project_url_fork_part:
  "(\<not> is_fork self \<longrightarrow>
      get_project_url svc args add_fork_part add_api_endpoint_part self s =
        (Inr (get_api_url (namespace self # Some (repo self) # map Some args)
                add_api_endpoint_part), self, s)
      \<and> (namespace self \<noteq> Some ''fork'' \<and> repo self \<noteq> ''fork'' \<and> ''fork'' \<notin> set args \<longrightarrow>
           Some ''fork'' \<notin>
             set (segments (get_api_url (namespace self # Some (repo self) # map Some args)
                              add_api_endpoint_part))))
   \<and> (is_fork self \<longrightarrow>
        (\<forall>u self' s'.
           get_project_url svc args True add_api_endpoint_part self s = (Inr u, self', s') \<longrightarrow>
           (\<exists>who. user svc self s = (Inr who, self', s')
              \<and> segments u =
                  Some ''fork'' # Some who # namespace self # Some (repo self) # map Some args))
        \<and> (\<forall>who. username self = Some who \<and> who \<noteq> [] \<longrightarrow>
             get_project_url svc args True add_api_endpoint_part self s =
               (Inr (get_api_url
                       (Some ''fork'' # Some who # namespace self # Some (repo self) # map Some args)
                       add_api_endpoint_part), self, s)))"
  apply (intro conjI impI allI)
     apply (simp add: get_project_url_not_fork)
    apply (auto simp: get_api_url_def)[1]
   apply (auto simp: get_project_url_fork get_api_url_def split: prod.splits sum.splits)[1]
  apply (simp add: get_project_url_fork user_set)
  done

text \<open>
  C1, at the example project (no fork prefix without the fork flag) and at its fork by
  \<open>bob\<close> (the prefix \<open>fork\<close>, \<open>bob\<close>).
\<close>

theorem get_project_url_fork_part_witness:
  "get_project_url (example_service False JNull) [''git'', ''tags''] False True
       (example_project False) [] =
     (Inr (get_api_url [Some ''packit'', Some ''ogr'', Some ''git'', Some ''tags''] True),
      example_project False, [])
   \<and> Some ''fork'' \<notin>
       set (segments (get_api_url [Some ''packit'', Some ''ogr'', Some ''git'', Some ''tags''] True))
   \<and> get_project_url (example_service False JNull) [''git'', ''tags''] True True
         ((example_project False)\<lparr>is_fork := True, username := Some ''bob''\<rparr>) [] =
       (Inr (get_api_url
          [Some ''fork'', Some ''bob'', Some ''packit'', Some ''ogr'', Some ''git'', Some ''tags'']
          True),
        (example_project False)\<lparr>is_fork := True, username := Some ''bob''\<rparr>, [])"
  using get_project_url_fork_part [of "example_project False" "example_service False JNull"
      "[''git'', ''tags'']" False True "[]"]
    get_project_url_fork_part [of "(example_project False)\<lparr>is_fork := True, username := Some ''bob''\<rparr>"
      "example_service False JNull" "[''git'', ''tags'']" False True "[]"]
  by (simp add: example_defs)

text \<open>
  C1 as stated fails on a project in a namespace called \<open>fork\<close>: the handle is not a
  fork, and the URL built for it has the segment \<open>fork\<close>.
\<close>

theorem get_project_url_fork_namespace_counterexample:
  "\<not> is_fork ((example_project False)\<lparr>namespace := Some ''fork''\<rparr>)
   \<and> get_project_url (example_service False JNull) [] True True
         ((example_project False)\<lparr>namespace := Some ''fork''\<rparr>) [] =
       (Inr (Url [Some ''fork'', Some ''ogr''] True),
        (example_project False)\<lparr>namespace := Some ''fork''\<rparr>, [])
   \<and> Some ''fork'' \<in> set (segments (Url [Some ''fork'', Some ''ogr''] True))"
  by (simp add: example_defs get_project_url_def ret_def get_api_url_def)

section \<open>Operations that are refused\<close>

text \<open>
  C4. Whatever the commit, the body, the file name and the row, \<open>commit_comment\<close> raises
  \<open>OperationNotSupported\<close>; it returns no value and sends no request.
\<close>

theorem commit_comment_not_supported:
  "commit_comment svc commit body filename row self s =
     (Inl (OperationNotSupported ''Commit comments are not supported on Pagure.''), self, s)"
  by (simp add: commit_comment_def raise_def)

text \<open>
  C7. On a handle that is a fork, \<open>get_fork\<close> raises \<open>OgrException\<close> for either value
  of \<open>create\<close>, and the list of requests sent is as it was: no query reaches the forge.
\<close>

theorem get_fork_of_fork_rejected:
  "is_fork self \<Longrightarrow>
     get_fork svc create self s = (Inl (OgrException ''Cannot create fork from fork.''), self, s)"
  by (simp add: get_fork_def raise_def)

text \<open>C7, at a fork of the example project, with and without \<open>create\<close>.\<close>

theorem get_fork_of_fork_rejected_witness:
  "is_fork ((example_project False)\<lparr>is_fork := True\<rparr>)
   \<and> get_fork (example_service False JNull) True ((example_project False)\<lparr>is_fork := True\<rparr>) [] =
       (Inl (OgrException ''Cannot create fork from fork.''),
        (example_project False)\<lparr>is_fork := True\<rparr>, [])
   \<and> get_fork (example_service False JNull) False ((example_project False)\<lparr>is_fork := True\<rparr>) [] =
       (Inl (OgrException ''Cannot create fork from fork.''),
        (example_project False)\<lparr>is_fork := True\<rparr>, [])"
  using get_fork_of_fork_rejected [of "(example_project False)\<lparr>is_fork := True\<rparr>"
      "example_service False JNull" True "[]"]
    get_fork_of_fork_rejected [of "(example_project False)\<lparr>is_fork := True\<rparr>"
      "example_service False JNull" False "[]"]
  by (simp add: example_defs)

section \<open>Read-only clients\<close>

text \<open>
  C8. On a read-only handle each of \<open>create_pr\<close>, \<open>fork_create\<close> and
  \<open>set_commit_status\<close> returns what its read-only substitute returns, and the list of
  requests sent is as it was: no request, and so no POST, is sent.
\<close>

theorem read_only_redirects:
  "read_only self \<Longrightarrow>
     create_pr ro_create_pr PagurePullRequest_create title body target_branch source_branch
         fork_username self s =
       (ro_create_pr self title body target_branch source_branch fork_username, self, s)
     \<and> fork_create svc self s = (ro_fork_create svc self, self, s)
     \<and> set_commit_status svc commit state target_url description ctx percent uid self s =
         (ro_set_commit_status svc self commit state target_url description ctx percent uid,
          self, s)"
  by (simp add: create_pr_def fork_create_def set_commit_status_def if_readonly_def lift_def)

text \<open>
  C8, at the example project of a read-only service; the pull request operation given
  to \<open>create_pr\<close> would send a POST.
\<close>

theorem read_only_redirects_witness:
  "read_only (example_project True)
   \<and> fork_create (example_service True JNull) (example_project True) [] =
       (Inr (example_project True), example_project True, [])
   \<and> set_commit_status (example_service True JNull) ''sha1'' ''success'' ''u'' ''d'' ''ctx'' None None
         (example_project True) [] =
       (example_ro_flag (example_project True) ''sha1'' ''success'' ''u'' ''d'' ''ctx'' None None,
        example_project True, [])
   \<and> create_pr (\<lambda>self title body target_branch source_branch fork_username. Inr title)
         (\<lambda>title body target_branch source_branch.
            seq (call_project_api (example_service True JNull) [''pull-request'', ''new''] True True
                   (Some ''POST'') None None) (\<lambda>response. ret body))
         ''t'' ''b'' ''master'' ''dev'' None (example_project True) [] =
       (Inr ''t'', example_project True, [])"
  using read_only_redirects [of "example_project True"
      "\<lambda>self title body target_branch source_branch fork_username. Inr title"
      "\<lambda>title body target_branch source_branch.
         seq (call_project_api (example_service True JNull) [''pull-request'', ''new''] True True
                (Some ''POST'') None None) (\<lambda>response. ret body)"
      "''t''" "''b''" "''master''" "''dev''" None "[]" "example_service True JNull"
      "''sha1''" "''success''" "''u''" "''d''" "''ctx''" None None]
  by (simp add: example_defs)

section \<open>Who can close an issue, who can merge\<close>

lemma seq_lift: "seq (lift r) f = (case r of Inl e \<Rightarrow> raise e | Inr x \<Rightarrow> f x)"
  by (cases r) simp_all

lemma seq_result:
  "m self s = (Inr x, self', s') \<Longrightarrow> seq m f self s = f x self' s'"
  by (simp add: seq_def)

lemma seq_error:
  "m self s = (Inl e, self', s') \<Longrightarrow> seq m f self s = (Inl e, self', s')"
  by (simp add: seq_def)

lemma and_then_Inr_iff:
  "and_then r f = Inr y \<longleftrightarrow> (\<exists>x. r = Inr x \<and> f x = Inr y)"
  by (cases r) simp_all

lemma set_update_mono:
  "set_update {} x = Inr A \<Longrightarrow> set_update users x = Inr (users \<union> A)"
  unfolding set_update_def and_then_Inr_iff by auto

lemma set_update_split:
  "set_update users x = Inr V \<Longrightarrow> \<exists>A. set_update {} x = Inr A \<and> V = users \<union> A"
  unfolding set_update_def and_then_Inr_iff by auto

lemma level_update:
  "and_then r (set_update {}) = Inr A \<Longrightarrow> and_then r (set_update users) = Inr (users \<union> A)"
  unfolding and_then_Inr_iff by (auto dest: set_update_mono)

lemma level_split:
  "and_then r (set_update users) = Inr V \<Longrightarrow>
     \<exists>A. and_then r (set_update {}) = Inr A \<and> V = users \<union> A"
  unfolding and_then_Inr_iff by (auto dest: set_update_split)

lemma who_can_close_issue_eq:
  assumes i: "get_project_info svc self s = (Inr info, self', s')"
    and a: "and_then (getitem2 info ''access_users'' ''admin'') (set_update {}) = Inr A"
    and b: "and_then (getitem2 info ''access_users'' ''commit'') (set_update {}) = Inr B"
    and t: "and_then (getitem2 info ''access_users'' ''ticket'') (set_update {}) = Inr T"
    and w: "and_then (getitem2 info ''access_users'' ''owner'') (set_update {}) = Inr W"
  shows "who_can_close_issue svc self s = (Inr (A \<union> B \<union> T \<union> W), self', s')"
  unfolding who_can_close_issue_def
  by (simp add: seq_result [where m = "get_project_info svc", OF i] a level_update [OF b] level_update [OF t] level_update [OF w]
      ret_def)

lemma who_can_merge_pr_eq:
  assumes i: "get_project_info svc self s = (Inr info, self', s')"
    and a: "and_then (getitem2 info ''access_users'' ''admin'') (set_update {}) = Inr A"
    and b: "and_then (getitem2 info ''access_users'' ''commit'') (set_update {}) = Inr B"
    and w: "and_then (getitem2 info ''access_users'' ''owner'') (set_update {}) = Inr W"
  shows "who_can_merge_pr svc self s = (Inr (A \<union> B \<union> W), self', s')"
  unfolding who_can_merge_pr_def
  by (simp add: seq_result [where m = "get_project_info svc", OF i] a level_update [OF b] level_update [OF w] ret_def)

lemma seq_lift_Inr_iff:
  "seq (lift r) f self s = (Inr y, self', s') \<longleftrightarrow> (\<exists>x. r = Inr x \<and> f x self s = (Inr y, self', s'))"
  by (cases r) (simp_all add: raise_def)

lemma seq_Inr_iff:
  "seq m f self s = (Inr y, self', s') \<longleftrightarrow>
     (\<exists>x self1 s1. m self s = (Inr x, self1, s1) \<and> f x self1 s1 = (Inr y, self', s'))"
  by (auto simp: seq_def split: prod.splits sum.splits)

lemma who_can_merge_pr_Inr:
  assumes "who_can_merge_pr svc self s = (Inr M, selfm, sm)"
  shows "\<exists>info A B W. get_project_info svc self s = (Inr info, selfm, sm)
     \<and> and_then (getitem2 info ''access_users'' ''admin'') (set_update {}) = Inr A
     \<and> and_then (getitem2 info ''access_users'' ''commit'') (set_update {}) = Inr B
     \<and> and_then (getitem2 info ''access_users'' ''owner'') (set_update {}) = Inr W
     \<and> M = A \<union> B \<union> W"
proof -
  from assms obtain info where i: "get_project_info svc self s = (Inr info, selfm, sm)"
    and r: "seq (lift (and_then (getitem2 info ''access_users'' ''admin'') (set_update {}))) (\<lambda>users.
     seq (lift (and_then (getitem2 info ''access_users'' ''commit'') (set_update users))) (\<lambda>users.
     seq (lift (and_then (getitem2 info ''access_users'' ''owner'') (set_update users))) (\<lambda>users.
     ret users))) selfm sm = (Inr M, selfm, sm)"
    unfolding who_can_merge_pr_def seq_lift_Inr_iff ret_def
    by (subst (asm) seq_Inr_iff) (auto simp: seq_lift_Inr_iff)
  from r obtain A U2 where a: "and_then (getitem2 info ''access_users'' ''admin'') (set_update {}) = Inr A"
    and b': "and_then (getitem2 info ''access_users'' ''commit'') (set_update A) = Inr U2"
    and w': "and_then (getitem2 info ''access_users'' ''owner'') (set_update U2) = Inr M"
    by (auto simp: seq_lift_Inr_iff ret_def)
  from level_split [OF b'] obtain B where b: "and_then (getitem2 info ''access_users'' ''commit'') (set_update {}) = Inr B"
    and u2: "U2 = A \<union> B" by blast
  from level_split [OF w'] obtain W where w: "and_then (getitem2 info ''access_users'' ''owner'') (set_update {}) = Inr W"
    and m: "M = U2 \<union> W" by blast
  from i a b w u2 m show ?thesis by blast
qed


lemma who_can_close_issue_Inr:
  assumes "who_can_close_issue svc self s = (Inr C, selfc, sc)"
  shows "\<exists>info A B T W. get_project_info svc self s = (Inr info, selfc, sc)
     \<and> and_then (getitem2 info ''access_users'' ''admin'') (set_update {}) = Inr A
     \<and> and_then (getitem2 info ''access_users'' ''commit'') (set_update {}) = Inr B
     \<and> and_then (getitem2 info ''access_users'' ''ticket'') (set_update {}) = Inr T
     \<and> and_then (getitem2 info ''access_users'' ''owner'') (set_update {}) = Inr W
     \<and> C = A \<union> B \<union> T \<union> W"
proof -
  from assms obtain info where i: "get_project_info svc self s = (Inr info, selfc, sc)"
    and r: "seq (lift (and_then (getitem2 info ''access_users'' ''admin'') (set_update {}))) (\<lambda>users.
     seq (lift (and_then (getitem2 info ''access_users'' ''commit'') (set_update users))) (\<lambda>users.
     seq (lift (and_then (getitem2 info ''access_users'' ''ticket'') (set_update users))) (\<lambda>users.
     seq (lift (and_then (getitem2 info ''access_users'' ''owner'') (set_update users))) (\<lambda>users.
     ret users)))) selfc sc = (Inr C, selfc, sc)"
    unfolding who_can_close_issue_def seq_lift_Inr_iff ret_def
    by (subst (asm) seq_Inr_iff) (auto simp: seq_lift_Inr_iff)
  from r obtain A U2 U3 where a: "and_then (getitem2 info ''access_users'' ''admin'') (set_update {}) = Inr A"
    and b': "and_then (getitem2 info ''access_users'' ''commit'') (set_update A) = Inr U2"
    and t': "and_then (getitem2 info ''access_users'' ''ticket'') (set_update U2) = Inr U3"
    and w': "and_then (getitem2 info ''access_users'' ''owner'') (set_update U3) = Inr C"
    by (auto simp: seq_lift_Inr_iff ret_def)
  from level_split [OF b'] obtain B where b: "and_then (getitem2 info ''access_users'' ''commit'') (set_update {}) = Inr B"
    and u2: "U2 = A \<union> B" by blast
  from level_split [OF t'] obtain T where t: "and_then (getitem2 info ''access_users'' ''ticket'') (set_update {}) = Inr T"
    and u3: "U3 = U2 \<union> T" by blast
  from level_split [OF w'] obtain W where w: "and_then (getitem2 info ''access_users'' ''owner'') (set_update {}) = Inr W"
    and m: "C = U3 \<union> W" by blast
  from i a b t w u2 u3 m show ?thesis by blast
qed

text \<open>
  C2. From one state of the forge, the set that \<open>who_can_merge_pr\<close> returns is a subset
  of the set that \<open>who_can_close_issue\<close> returns. For every project info whose
  \<open>access_users\<close> has the levels \<open>admin\<close>, \<open>commit\<close>, \<open>ticket\<close> and \<open>owner\<close>, with the
  users \<open>A\<close>, \<open>B\<close>, \<open>T\<close> and \<open>W\<close>, both return: \<open>who_can_close_issue\<close> the union of the
  four, \<open>who_can_merge_pr\<close> the union of \<open>A\<close>, \<open>B\<close> and \<open>W\<close> only.
\<close>

theorem who_can_merge_pr_subset:
  "(\<forall>M selfm sm C selfc sc.
      who_can_merge_pr svc self s = (Inr M, selfm, sm) \<longrightarrow>
      who_can_close_issue svc self s = (Inr C, selfc, sc) \<longrightarrow> M \<subseteq> C)
   \<and> (\<forall>info self' s' A B T W.
        get_project_info svc self s = (Inr info, self', s') \<longrightarrow>
        and_then (getitem2 info ''access_users'' ''admin'') (set_update {}) = Inr A \<longrightarrow>
        and_then (getitem2 info ''access_users'' ''commit'') (set_update {}) = Inr B \<longrightarrow>
        and_then (getitem2 info ''access_users'' ''ticket'') (set_update {}) = Inr T \<longrightarrow>
        and_then (getitem2 info ''access_users'' ''owner'') (set_update {}) = Inr W \<longrightarrow>
        who_can_close_issue svc self s = (Inr (A \<union> B \<union> T \<union> W), self', s')
        \<and> who_can_merge_pr svc self s = (Inr (A \<union> B \<union> W), self', s'))"
proof (intro conjI allI impI)
  fix M selfm sm C selfc sc
  assume m: "who_can_merge_pr svc self s = (Inr M, selfm, sm)"
    and c: "who_can_close_issue svc self s = (Inr C, selfc, sc)"
  from who_can_merge_pr_Inr [OF m] obtain info A B W where
    i: "get_project_info svc self s = (Inr info, selfm, sm)"
    and a: "and_then (getitem2 info ''access_users'' ''admin'') (set_update {}) = Inr A"
    and b: "and_then (getitem2 info ''access_users'' ''commit'') (set_update {}) = Inr B"
    and w: "and_then (getitem2 info ''access_users'' ''owner'') (set_update {}) = Inr W"
    and M: "M = A \<union> B \<union> W" by blast
  from who_can_close_issue_Inr [OF c] obtain info' A' B' T' W' where
    i': "get_project_info svc self s = (Inr info', selfc, sc)"
    and a': "and_then (getitem2 info' ''access_users'' ''admin'') (set_update {}) = Inr A'"
    and b': "and_then (getitem2 info' ''access_users'' ''commit'') (set_update {}) = Inr B'"
    and w': "and_then (getitem2 info' ''access_users'' ''owner'') (set_update {}) = Inr W'"
    and C: "C = A' \<union> B' \<union> T' \<union> W'" by blast
  from i i' have "info' = info" by simp
  with a a' b b' w w' have "A' = A" "B' = B" "W' = W" by simp_all
  with M C show "M \<subseteq> C" by blast
next
  fix info self' s' A B T W
  assume "get_project_info svc self s = (Inr info, self', s')"
    "and_then (getitem2 info ''access_users'' ''admin'') (set_update {}) = Inr A"
    "and_then (getitem2 info ''access_users'' ''commit'') (set_update {}) = Inr B"
    "and_then (getitem2 info ''access_users'' ''ticket'') (set_update {}) = Inr T"
    "and_then (getitem2 info ''access_users'' ''owner'') (set_update {}) = Inr W"
  then show "who_can_close_issue svc self s = (Inr (A \<union> B \<union> T \<union> W), self', s')"
    and "who_can_merge_pr svc self s = (Inr (A \<union> B \<union> W), self', s')"
    by (simp_all add: who_can_close_issue_eq who_can_merge_pr_eq)
qed

lemma example_get_project_info:
  "get_project_info (example_service False JNull) (example_project False) [] =
     (Inr (example_info JNull), example_project False,
      [\<lparr>raw = False, req_url = Url [Some ''packit'', Some ''ogr''] True,
        req_method = Some ''GET'', req_params = None, req_data = None\<rparr>])"
  by (simp add: get_project_info_def call_project_api_def get_project_url_def call_api_def
      get_api_url_def example_service_def example_project_def PagureProject_def
      example_respond_def ret_def seq_def)

text \<open>
  C2, at the scenario: admin \<open>a\<close>, commit \<open>b\<close>, ticket \<open>c\<close>, owner \<open>d\<close>.
\<close>

theorem who_can_merge_pr_subset_witness:
  "fst (who_can_close_issue (example_service False JNull) (example_project False) []) =
     Inr {''a'', ''b'', ''c'', ''d''}
   \<and> fst (who_can_merge_pr (example_service False JNull) (example_project False) []) =
       Inr {''a'', ''b'', ''d''}
   \<and> {''a'', ''b'', ''d''} \<subseteq> {''a'', ''b'', ''c'', ''d''}"
proof -
  have a: "and_then (getitem2 (example_info JNull) ''access_users'' ''admin'') (set_update {}) = Inr {''a''}"
    and b: "and_then (getitem2 (example_info JNull) ''access_users'' ''commit'') (set_update {}) = Inr {''b''}"
    and t: "and_then (getitem2 (example_info JNull) ''access_users'' ''ticket'') (set_update {}) = Inr {''c''}"
    and w: "and_then (getitem2 (example_info JNull) ''access_users'' ''owner'') (set_update {}) = Inr {''d''}"
    by (simp_all add: example_info_def getitem2_def set_update_def)
  from who_can_merge_pr_subset [of "example_service False JNull" "example_project False" "[]",
      THEN conjunct2, rule_format, OF example_get_project_info a b t w]
  have c: "fst (who_can_close_issue (example_service False JNull) (example_project False) []) =
       Inr ({''a''} \<union> {''b''} \<union> {''c''} \<union> {''d''})"
    and m: "fst (who_can_merge_pr (example_service False JNull) (example_project False) []) =
       Inr ({''a''} \<union> {''b''} \<union> {''d''})"
    by simp_all
  have "fst (who_can_merge_pr (example_service False JNull) (example_project False) []) = Inr M \<Longrightarrow>
        fst (who_can_close_issue (example_service False JNull) (example_project False) []) = Inr C \<Longrightarrow>
        M \<subseteq> C" for M C
    using who_can_merge_pr_subset [of "example_service False JNull" "example_project False" "[]",
        THEN conjunct1, rule_format, of M _ _ C]
    by (metis prod.collapse)
  from this [OF m c] c m show ?thesis by auto
qed

section \<open>Setting a commit status\<close>

lemma commit_status_data_keys:
  "map fst (commit_status_data state target_url description ctx percent uid) =
     [''username'', ''comment'', ''url'', ''status'']
     @ (if \<exists>p. percent = Some p \<and> p \<noteq> 0 then [''percent''] else [])
     @ (if \<exists>u. uid = Some u \<and> u \<noteq> [] then [''uid''] else [])"
  by (cases percent; cases uid) (simp_all add: commit_status_data_def Let_def)

lemma commit_status_data_values:
  "map_of (commit_status_data state target_url description ctx percent uid) =
     (\<lambda>k. if k = ''username'' then Some (JStr ctx)
          else if k = ''comment'' then Some (JStr description)
          else if k = ''url'' then Some (JStr target_url)
          else if k = ''status'' then Some (JStr state)
          else if k = ''percent'' then
            (case percent of None \<Rightarrow> None | Some p \<Rightarrow> if p \<noteq> 0 then Some (JInt p) else None)
          else if k = ''uid'' then
            (case uid of None \<Rightarrow> None | Some u \<Rightarrow> if u \<noteq> [] then Some (JStr u) else None)
          else None)"
  by (cases percent; cases uid) (auto simp: commit_status_data_def Let_def fun_eq_iff)

lemma commit_status_from_pagure_dict_Inr:
  "commit_status_from_pagure_dict flag v = Inr cf \<Longrightarrow>
     flag_uid cf = v
     \<and> getitem flag ''commit_hash'' = Inr (flag_commit cf)
     \<and> getitem flag ''comment'' = Inr (flag_comment cf)
     \<and> getitem flag ''status'' = Inr (flag_state cf)
     \<and> getitem flag ''username'' = Inr (flag_context cf)
     \<and> getitem flag ''url'' = Inr (flag_url cf)"
  unfolding commit_status_from_pagure_dict_def and_then_Inr_iff by auto

lemma set_commit_status_run:
  assumes "\<not> read_only self"
    and u: "get_project_url svc [''c'', commit, ''flag''] True True self s = (Inr u, self1, s1)"
  shows "set_commit_status svc commit state target_url description ctx percent uid self s =
     (and_then
        (respond svc s1
           \<lparr>raw = False, req_url = u, req_method = Some ''POST'', req_params = None,
            req_data = Some (JDict (commit_status_data state target_url description ctx percent uid))\<rparr>)
        (\<lambda>response. and_then (getitem response ''flag'') (\<lambda>flag.
           and_then (getitem response ''uid'') (\<lambda>v. commit_status_from_pagure_dict flag v))),
      self1,
      s1 @ [\<lparr>raw = False, req_url = u, req_method = Some ''POST'', req_params = None,
             req_data = Some (JDict (commit_status_data state target_url description ctx percent uid))\<rparr>])"
  using assms
  by (simp add: set_commit_status_def if_readonly_def call_project_api_def
      seq_def call_api_def lift_def Let_def and_then_def split: sum.splits)


text \<open>
  C3, amended. On a handle that is not read-only, \<open>set_commit_status\<close> sends one request
  to \<open>c/<commit>/flag\<close>, a POST whose payload has \<open>username\<close> (the context), \<open>comment\<close>
  (the description), \<open>url\<close> (the target URL) and \<open>status\<close> (the state). The payload has
  the key \<open>percent\<close> whenever the argument is given and not zero, and never when it is
  not given; it has the key \<open>uid\<close> if and only if the argument is given and not empty;
  the value of either key is the argument. With neither given the payload has exactly
  the four keys. The flag returned is built from the answer's \<open>flag\<close>, with the answer's
  top-level \<open>uid\<close> as its uid.
\<close>

theorem set_commit_status_payload:
  assumes "\<not> read_only self"
    and "get_project_url svc [''c'', commit, ''flag''] True True self s = (Inr u, self1, s1)"
    and "data = commit_status_data state target_url description ctx percent uid"
    and "r = \<lparr>raw = False, req_url = u, req_method = Some ''POST'', req_params = None,
              req_data = Some (JDict data)\<rparr>"
  shows "\<exists>res.
     set_commit_status svc commit state target_url description ctx percent uid self s =
       (res, self1, s1 @ [r])
     \<and> map_of data ''username'' = Some (JStr ctx)
     \<and> map_of data ''comment'' = Some (JStr description)
     \<and> map_of data ''url'' = Some (JStr target_url)
     \<and> map_of data ''status'' = Some (JStr state)
     \<and> (percent = None \<longrightarrow> ''percent'' \<notin> set (map fst data))
     \<and> (\<forall>p. percent = Some p \<and> p \<noteq> 0 \<longrightarrow>
          ''percent'' \<in> set (map fst data) \<and> map_of data ''percent'' = Some (JInt p))
     \<and> (''uid'' \<in> set (map fst data) \<longleftrightarrow> (\<exists>v. uid = Some v \<and> v \<noteq> []))
     \<and> (\<forall>v. uid = Some v \<and> v \<noteq> [] \<longrightarrow> map_of data ''uid'' = Some (JStr v))
     \<and> distinct (map fst data)
     \<and> (percent = None \<and> uid = None \<longrightarrow>
          map fst data = [''username'', ''comment'', ''url'', ''status''] \<and> length data = 4)
     \<and> (\<forall>response flag v.
          respond svc s1 r = Inr response \<and> getitem response ''flag'' = Inr flag
            \<and> getitem response ''uid'' = Inr v \<longrightarrow>
          res = commit_status_from_pagure_dict flag v
          \<and> (\<forall>cf. res = Inr cf \<longrightarrow>
                flag_uid cf = v
                \<and> getitem flag ''commit_hash'' = Inr (flag_commit cf)
                \<and> getitem flag ''comment'' = Inr (flag_comment cf)
                \<and> getitem flag ''status'' = Inr (flag_state cf)
                \<and> getitem flag ''username'' = Inr (flag_context cf)
                \<and> getitem flag ''url'' = Inr (flag_url cf)))"
proof -
  let ?res = "and_then (respond svc s1 r) (\<lambda>response. and_then (getitem response ''flag'') (\<lambda>flag.
      and_then (getitem response ''uid'') (\<lambda>v. commit_status_from_pagure_dict flag v)))"
  have run: "set_commit_status svc commit state target_url description ctx percent uid self s =
      (?res, self1, s1 @ [r])"
    using set_commit_status_run [OF assms(1,2)] assms(3,4) by simp
  have keys: "map fst data =
     [''username'', ''comment'', ''url'', ''status'']
     @ (if \<exists>p. percent = Some p \<and> p \<noteq> 0 then [''percent''] else [])
     @ (if \<exists>u. uid = Some u \<and> u \<noteq> [] then [''uid''] else [])"
    using assms(3) by (simp only: commit_status_data_keys)
  have vals: "map_of data ''username'' = Some (JStr ctx)"
    "map_of data ''comment'' = Some (JStr description)"
    "map_of data ''url'' = Some (JStr target_url)"
    "map_of data ''status'' = Some (JStr state)"
    "\<forall>p. percent = Some p \<and> p \<noteq> 0 \<longrightarrow> map_of data ''percent'' = Some (JInt p)"
    "\<forall>v. uid = Some v \<and> v \<noteq> [] \<longrightarrow> map_of data ''uid'' = Some (JStr v)"
    unfolding assms(3) commit_status_data_values by simp_all
  have k1: "''percent'' \<in> set (map fst data) \<longleftrightarrow> (\<exists>p. percent = Some p \<and> p \<noteq> 0)"
    and k2: "''uid'' \<in> set (map fst data) \<longleftrightarrow> (\<exists>v. uid = Some v \<and> v \<noteq> [])"
    and k3: "distinct (map fst data)"
    and k4: "percent = None \<and> uid = None \<longrightarrow>
          map fst data = [''username'', ''comment'', ''url'', ''status''] \<and> length data = 4"
  proof -
    show "''percent'' \<in> set (map fst data) \<longleftrightarrow> (\<exists>p. percent = Some p \<and> p \<noteq> 0)"
      unfolding keys by simp
    show "''uid'' \<in> set (map fst data) \<longleftrightarrow> (\<exists>v. uid = Some v \<and> v \<noteq> [])"
      unfolding keys by simp
    show "distinct (map fst data)"
      unfolding assms(3) by (cases percent; cases uid) (simp_all add: commit_status_data_def Let_def)
    show "percent = None \<and> uid = None \<longrightarrow>
          map fst data = [''username'', ''comment'', ''url'', ''status''] \<and> length data = 4"
      using keys length_map [of fst data] by (auto simp del: length_map)
  qed
  have k1a: "percent = None \<longrightarrow> ''percent'' \<notin> set (map fst data)"
    using k1 by simp
  have k1b: "\<forall>p. percent = Some p \<and> p \<noteq> 0 \<longrightarrow>
      ''percent'' \<in> set (map fst data) \<and> map_of data ''percent'' = Some (JInt p)"
    using k1 vals(5) by simp
  have flag: "\<forall>response flag v.
          respond svc s1 r = Inr response \<and> getitem response ''flag'' = Inr flag
            \<and> getitem response ''uid'' = Inr v \<longrightarrow>
          ?res = commit_status_from_pagure_dict flag v
          \<and> (\<forall>cf. ?res = Inr cf \<longrightarrow>
                flag_uid cf = v
                \<and> getitem flag ''commit_hash'' = Inr (flag_commit cf)
                \<and> getitem flag ''comment'' = Inr (flag_comment cf)
                \<and> getitem flag ''status'' = Inr (flag_state cf)
                \<and> getitem flag ''username'' = Inr (flag_context cf)
                \<and> getitem flag ''url'' = Inr (flag_url cf))"
  proof (intro allI impI)
    fix response flag v
    assume h: "respond svc s1 r = Inr response \<and> getitem response ''flag'' = Inr flag
            \<and> getitem response ''uid'' = Inr v"
    then have e: "?res = commit_status_from_pagure_dict flag v" by simp
    show "?res = commit_status_from_pagure_dict flag v
          \<and> (\<forall>cf. ?res = Inr cf \<longrightarrow>
                flag_uid cf = v
                \<and> getitem flag ''commit_hash'' = Inr (flag_commit cf)
                \<and> getitem flag ''comment'' = Inr (flag_comment cf)
                \<and> getitem flag ''status'' = Inr (flag_state cf)
                \<and> getitem flag ''username'' = Inr (flag_context cf)
                \<and> getitem flag ''url'' = Inr (flag_url cf))"
      unfolding e using commit_status_from_pagure_dict_Inr [of flag v] by blast
  qed
  show ?thesis
    apply (rule exI [of _ ?res])
    apply (intro conjI)
               apply (rule run)
              apply (rule vals(1))
             apply (rule vals(2))
            apply (rule vals(3))
           apply (rule vals(4))
          apply (rule k1a)
         apply (rule k1b)
        apply (rule k2)
       apply (rule vals(6))
      apply (rule k3)
     apply (rule k4)
    apply (rule flag)
    done
qed


text \<open>The definitions that running an operation on the example forge unfolds.\<close>

lemmas run_defs =
  seq_def ret_def raise_def lift_def on_obj_def call_api_def call_api_raw_def
  call_project_api_def call_project_api_raw_def get_project_url_def get_api_url_def user_def
  get_project_info_def

text \<open>
  C3, at the example project: a status with 50 percent and no uid; the payload has five
  keys and the flag's uid is the answer's.
\<close>

theorem set_commit_status_payload_witness:
  "set_commit_status (example_service False JNull) ''sha1'' ''success'' ''u'' ''d'' ''ctx''
       (Some 50) None (example_project False) [] =
     (Inr \<lparr>flag_commit = JStr ''sha1'', flag_comment = JStr ''d'', flag_state = JStr ''success'',
           flag_context = JStr ''ctx'', flag_url = JStr ''u'', flag_uid = JStr ''f00''\<rparr>,
      example_project False,
      [\<lparr>raw = False,
        req_url = Url [Some ''packit'', Some ''ogr'', Some ''c'', Some ''sha1'', Some ''flag''] True,
        req_method = Some ''POST'', req_params = None,
        req_data = Some (JDict [(''username'', JStr ''ctx''), (''comment'', JStr ''d''),
                                (''url'', JStr ''u''), (''status'', JStr ''success''),
                                (''percent'', JInt 50)])\<rparr>])"
proof -
  have u: "get_project_url (example_service False JNull) [''c'', ''sha1'', ''flag''] True True
       (example_project False) [] =
     (Inr (Url [Some ''packit'', Some ''ogr'', Some ''c'', Some ''sha1'', Some ''flag''] True),
      example_project False, [])"
    by (simp add: run_defs example_defs)
  have ro: "\<not> read_only (example_project False)"
    by (simp add: example_defs)
  have d: "commit_status_data ''success'' ''u'' ''d'' ''ctx'' (Some 50) None =
     [(''username'', JStr ''ctx''), (''comment'', JStr ''d''), (''url'', JStr ''u''),
      (''status'', JStr ''success''), (''percent'', JInt 50)]"
    by (simp add: commit_status_data_def)
  from set_commit_status_payload [OF ro u refl refl, of "''success''" "''u''" "''d''" "''ctx''"
      "Some 50" None]
  show ?thesis
    by (auto simp: d example_defs commit_status_from_pagure_dict_def)
qed

text \<open>
  C3 as stated fails where an argument is given and false: with \<open>percent = 0\<close> and
  \<open>uid = ""\<close> the payload sent has the four keys only.
\<close>

theorem set_commit_status_zero_percent_counterexample:
  "set_commit_status (example_service False JNull) ''sha1'' ''success'' ''u'' ''d'' ''ctx''
       (Some 0) (Some []) (example_project False) [] =
     (Inr \<lparr>flag_commit = JStr ''sha1'', flag_comment = JStr ''d'', flag_state = JStr ''success'',
           flag_context = JStr ''ctx'', flag_url = JStr ''u'', flag_uid = JStr ''f00''\<rparr>,
      example_project False,
      [\<lparr>raw = False,
        req_url = Url [Some ''packit'', Some ''ogr'', Some ''c'', Some ''sha1'', Some ''flag''] True,
        req_method = Some ''POST'', req_params = None,
        req_data = Some (JDict [(''username'', JStr ''ctx''), (''comment'', JStr ''d''),
                                (''url'', JStr ''u''), (''status'', JStr ''success'')])\<rparr>])
   \<and> ''percent'' \<notin> set (map fst [(''username'', JStr ''ctx''), (''comment'', JStr ''d''),
                                (''url'', JStr ''u''), (''status'', JStr ''success'')])"
  by (simp add: set_commit_status_def if_readonly_def commit_status_data_def
      commit_status_from_pagure_dict_def run_defs example_defs)

section \<open>Tags\<close>

text \<open>Storing under a key that a dictionary does not have appends the pair.\<close>

lemma update_fresh:
  "k \<notin> set (map fst al) \<Longrightarrow> AList.update k v al = al @ [(k, v)]"
  by (induction al) auto

lemma tags_dict_foldl:
  "distinct (map fst tags) \<Longrightarrow> set (map fst acc) \<inter> set (map fst tags) = {} \<Longrightarrow>
     foldl (\<lambda>tags_dict (n, c). AList.update n \<lparr>name = n, commit_sha = c\<rparr> tags_dict) acc tags =
       acc @ map (\<lambda>(n, c). (n, \<lparr>name = n, commit_sha = c\<rparr>)) tags"
proof (induction tags arbitrary: acc)
  case Nil
  then show ?case by simp
next
  case (Cons kv tags)
  obtain n c where kv: "kv = (n, c)" by (cases kv)
  from Cons.prems have fresh: "n \<notin> set (map fst acc)" and d: "distinct (map fst tags)"
    and n: "n \<notin> set (map fst tags)" and dis: "set (map fst acc) \<inter> set (map fst tags) = {}"
    by (auto simp: kv)
  have "set (map fst (acc @ [(n, \<lparr>name = n, commit_sha = c\<rparr>)])) \<inter> set (map fst tags) = {}"
    using n dis by auto
  from Cons.IH [OF d this] show ?case
    by (simp add: kv update_fresh [OF fresh])
qed

lemma tags_dict_map:
  "distinct (map fst tags) \<Longrightarrow>
     foldl (\<lambda>tags_dict (n, c). AList.update n \<lparr>name = n, commit_sha = c\<rparr> tags_dict) [] tags =
       map (\<lambda>(n, c). (n, \<lparr>name = n, commit_sha = c\<rparr>)) tags"
  using tags_dict_foldl [of tags "[]"] by simp

lemma map_of_tags_dict:
  "map_of (map (\<lambda>(n, c). (n, \<lparr>name = n, commit_sha = c\<rparr>)) tags) k =
     map_option (\<lambda>c. \<lparr>name = k, commit_sha = c\<rparr>) (map_of tags k)"
  by (induction tags) auto

lemma filter_tags:
  "distinct (map fst tags) \<Longrightarrow> map_of tags k = Some c \<Longrightarrow>
     filter (\<lambda>e. name e = k) (map (\<lambda>(n, c). \<lparr>name = n, commit_sha = c\<rparr>) tags) =
       [\<lparr>name = k, commit_sha = c\<rparr>]"
proof (induction tags)
  case Nil
  then show ?case by simp
next
  case (Cons kv tags)
  obtain n d where kv: "kv = (n, d)" by (cases kv)
  show ?case
  proof (cases "n = k")
    case True
    with Cons.prems kv have "k \<notin> fst ` set tags" and "d = c" by auto
    then have "filter (\<lambda>e. name e = k) (map (\<lambda>(n, c). \<lparr>name = n, commit_sha = c\<rparr>) tags) = []"
      by (force simp: filter_empty_conv)
    with True kv \<open>d = c\<close> show ?thesis by simp
  next
    case False
    with Cons kv show ?thesis by simp
  qed
qed

lemma names_of_tags:
  "map name (map (\<lambda>(n, c). \<lparr>name = n, commit_sha = c\<rparr>) tags) = map fst tags"
  by (induction tags) auto

lemma keys_of_tags_dict:
  "map fst (map (\<lambda>(n, c). (n, \<lparr>name = n, commit_sha = c\<rparr>)) tags) = map fst tags"
  by (induction tags) auto

text \<open>
  C9. For every answer to the tags request whose \<open>tags\<close> is a dictionary (each name once),
  \<open>get_tags\<close> and \<open>get_tags_dict\<close> both return, and their views agree: both hold exactly
  the names of the answer's mapping, in its order, and the tag stored under a name in the
  dictionary has that name and the commit SHA of the one entry of the list with that
  name, which is the SHA the answer gives for it.
\<close>

theorem tags_views_consistent:
  assumes "call_project_api svc [''git'', ''tags''] True True None
             (Some (JDict [(''with_commits'', JBool True)])) None self s = (Inr response, self', s')"
    and "getitem response ''tags'' = Inr (JDict tags)"
    and "distinct (map fst tags)"
  shows "\<exists>ts td.
     get_tags svc self s = (Inr ts, self', s')
     \<and> get_tags_dict svc self s = (Inr td, self', s')
     \<and> map name ts = map fst tags
     \<and> map fst td = map fst tags
     \<and> (\<forall>n t. map_of td n = Some t \<longrightarrow>
          name t = n
          \<and> map_of tags n = Some (commit_sha t)
          \<and> (\<exists>e. filter (\<lambda>e. name e = n) ts = [e] \<and> commit_sha e = commit_sha t))"
proof -
  let ?ts = "map (\<lambda>(n, c). \<lparr>name = n, commit_sha = c\<rparr>) tags"
  let ?td = "map (\<lambda>(n, c). (n, \<lparr>name = n, commit_sha = c\<rparr>)) tags"
  have l: "get_tags svc self s = (Inr ?ts, self', s')"
    using assms(1,2) by (simp add: get_tags_def seq_def lift_def ret_def)
  have d: "get_tags_dict svc self s = (Inr ?td, self', s')"
    using assms(1,2) tags_dict_map [OF assms(3)]
    by (simp add: get_tags_dict_def seq_def lift_def ret_def)
  have c: "\<forall>n t. map_of ?td n = Some t \<longrightarrow>
          name t = n
          \<and> map_of tags n = Some (commit_sha t)
          \<and> (\<exists>e. filter (\<lambda>e. name e = n) ?ts = [e] \<and> commit_sha e = commit_sha t)"
  proof (intro allI impI)
    fix n t
    assume "map_of ?td n = Some t"
    then obtain c where c: "map_of tags n = Some c" and t: "t = \<lparr>name = n, commit_sha = c\<rparr>"
      unfolding map_of_tags_dict by auto
    from filter_tags [OF assms(3) c] t c
    show "name t = n \<and> map_of tags n = Some (commit_sha t)
          \<and> (\<exists>e. filter (\<lambda>e. name e = n) ?ts = [e] \<and> commit_sha e = commit_sha t)"
      by simp
  qed
  show ?thesis
    apply (rule exI [of _ ?ts])
    apply (rule exI [of _ ?td])
    apply (intro conjI)
        apply (rule l)
       apply (rule d)
      apply (rule names_of_tags)
     apply (rule keys_of_tags_dict)
    apply (rule c)
    done
qed

text \<open>C9, at the example forge, whose one tag is \<open>v1.0\<close>.\<close>

theorem tags_views_consistent_witness:
  "get_tags (example_service False JNull) (example_project False) [] =
     (Inr [\<lparr>name = ''v1.0'', commit_sha = JStr ''abc123''\<rparr>], example_project False,
      [\<lparr>raw = False, req_url = Url [Some ''packit'', Some ''ogr'', Some ''git'', Some ''tags''] True,
        req_method = None, req_params = Some (JDict [(''with_commits'', JBool True)]),
        req_data = None\<rparr>])
   \<and> get_tags_dict (example_service False JNull) (example_project False) [] =
       (Inr [(''v1.0'', \<lparr>name = ''v1.0'', commit_sha = JStr ''abc123''\<rparr>)], example_project False,
        [\<lparr>raw = False, req_url = Url [Some ''packit'', Some ''ogr'', Some ''git'', Some ''tags''] True,
          req_method = None, req_params = Some (JDict [(''with_commits'', JBool True)]),
          req_data = None\<rparr>])"
proof -
  have r: "call_project_api (example_service False JNull) [''git'', ''tags''] True True None
             (Some (JDict [(''with_commits'', JBool True)])) None (example_project False) [] =
     (Inr example_tags, example_project False,
      [\<lparr>raw = False, req_url = Url [Some ''packit'', Some ''ogr'', Some ''git'', Some ''tags''] True,
        req_method = None, req_params = Some (JDict [(''with_commits'', JBool True)]),
        req_data = None\<rparr>])"
    by (simp add: run_defs example_service_def example_project_def PagureProject_def
        example_respond_def)
  have t: "getitem example_tags ''tags'' = Inr (JDict [(''v1.0'', JStr ''abc123'')])"
    by (simp add: example_tags_def)
  have d: "distinct (map fst [(''v1.0'', JStr ''abc123'')])" by simp
  from tags_views_consistent [OF r t d] show ?thesis
    by (simp add: get_tags_def get_tags_dict_def run_defs example_defs)
qed

section \<open>The commit of a tag\<close>

lemma get_sha_from_tag_run:
  "get_tags_dict svc self s = (Inr tags_dict, self', s') \<Longrightarrow>
     get_sha_from_tag svc tag_name self s =
       (case map_of tags_dict tag_name of
          None \<Rightarrow> Inl (PagureAPIException (''Tag '' @ quoted tag_name @ '' not found.''))
        | Some tag \<Rightarrow> Inr (commit_sha tag), self', s')"
  by (auto simp: get_sha_from_tag_def seq_def raise_def ret_def map_of_eq_None_iff
      split: option.splits dest: map_of_SomeD intro: rev_image_eqI)

text \<open>
  C5. \<open>get_sha_from_tag\<close> raises \<open>PagureAPIException\<close> when the tag name is not a key of
  the mapping that \<open>get_tags_dict\<close> returns, and otherwise returns the commit SHA stored
  under the name; for an absent tag it returns no value. When \<open>get_tags_dict\<close> raises,
  so does \<open>get_sha_from_tag\<close>.
\<close>

theorem get_sha_from_tag_lookup:
  "(\<forall>e self' s'.
      get_tags_dict svc self s = (Inl e, self', s') \<longrightarrow>
      get_sha_from_tag svc tag_name self s = (Inl e, self', s'))
   \<and> (\<forall>tags_dict self' s'.
        get_tags_dict svc self s = (Inr tags_dict, self', s') \<longrightarrow>
        (tag_name \<notin> set (map fst tags_dict) \<longrightarrow>
           get_sha_from_tag svc tag_name self s =
             (Inl (PagureAPIException (''Tag '' @ quoted tag_name @ '' not found.'')), self', s'))
        \<and> (tag_name \<in> set (map fst tags_dict) \<longrightarrow>
             (\<exists>tag. map_of tags_dict tag_name = Some tag
                \<and> get_sha_from_tag svc tag_name self s = (Inr (commit_sha tag), self', s'))))"
proof (intro conjI allI impI)
  fix e self' s'
  assume "get_tags_dict svc self s = (Inl e, self', s')"
  then show "get_sha_from_tag svc tag_name self s = (Inl e, self', s')"
    by (simp add: get_sha_from_tag_def seq_def)
next
  fix tags_dict self' s'
  assume d: "get_tags_dict svc self s = (Inr tags_dict, self', s')"
    and n: "tag_name \<notin> set (map fst tags_dict)"
  from n have "map_of tags_dict tag_name = None"
    by (simp add: map_of_eq_None_iff)
  with get_sha_from_tag_run [OF d, of tag_name]
  show "get_sha_from_tag svc tag_name self s =
      (Inl (PagureAPIException (''Tag '' @ quoted tag_name @ '' not found.'')), self', s')"
    by simp
next
  fix tags_dict self' s'
  assume d: "get_tags_dict svc self s = (Inr tags_dict, self', s')"
    and n: "tag_name \<in> set (map fst tags_dict)"
  from n obtain tag where t: "map_of tags_dict tag_name = Some tag"
    by (cases "map_of tags_dict tag_name") (auto simp: map_of_eq_None_iff)
  with get_sha_from_tag_run [OF d, of tag_name]
  show "\<exists>tag. map_of tags_dict tag_name = Some tag
      \<and> get_sha_from_tag svc tag_name self s = (Inr (commit_sha tag), self', s')"
    by simp
qed

text \<open>C5, at the example forge: the tag \<open>v1.0\<close> is there, \<open>nonexistent\<close> is not.\<close>

theorem get_sha_from_tag_lookup_witness:
  "fst (get_sha_from_tag (example_service False JNull) ''v1.0'' (example_project False) []) =
     Inr (JStr ''abc123'')
   \<and> fst (get_sha_from_tag (example_service False JNull) ''nonexistent'' (example_project False) []) =
       Inl (PagureAPIException (''Tag '' @ quoted ''nonexistent'' @ '' not found.''))"
proof -
  let ?s = "[\<lparr>raw = False,
        req_url = Url [Some ''packit'', Some ''ogr'', Some ''git'', Some ''tags''] True,
        req_method = None, req_params = Some (JDict [(''with_commits'', JBool True)]),
        req_data = None\<rparr>]"
  have d: "get_tags_dict (example_service False JNull) (example_project False) [] =
       (Inr [(''v1.0'', \<lparr>name = ''v1.0'', commit_sha = JStr ''abc123''\<rparr>)], example_project False, ?s)"
    by (simp add: get_tags_dict_def run_defs example_defs)
  from get_sha_from_tag_lookup [of "example_service False JNull" "example_project False" "[]"
      "''v1.0''", THEN conjunct2, rule_format, OF d]
  have a: "fst (get_sha_from_tag (example_service False JNull) ''v1.0'' (example_project False) []) =
     Inr (JStr ''abc123'')"
    by auto
  from get_sha_from_tag_lookup [of "example_service False JNull" "example_project False" "[]"
      "''nonexistent''", THEN conjunct2, rule_format, OF d]
  have b: "fst (get_sha_from_tag (example_service False JNull) ''nonexistent'' (example_project False) []) =
       Inl (PagureAPIException (''Tag '' @ quoted ''nonexistent'' @ '' not found.''))"
    by auto
  from a b show ?thesis ..
qed

section \<open>The content of a file\<close>

text \<open>
  C6. \<open>get_file_content\<close> raises \<open>FileNotFoundError\<close> when the raw response is absent
  and when its reason is \<open>NOT FOUND\<close>; when the raw request raises
  \<open>OurPagureRawRequest\<close>, it raises \<open>FileNotFoundError\<close> with that exception as the wrapped
  cause; on any other response it returns the decoded content.
\<close>

theorem get_file_content_not_found:
  "(\<forall>self' s'.
      call_project_api_raw svc [''raw'', ref, ''f'', path] True False None None None self s =
        (Inr None, self', s') \<longrightarrow>
      get_file_content svc path ref self s =
        (Inl (FileNotFoundError (''File '' @ quoted path @ '' on '' @ ref @ '' not found'') None),
         self', s'))
   \<and> (\<forall>r self' s'.
        call_project_api_raw svc [''raw'', ref, ''f'', path] True False None None None self s =
          (Inr (Some r), self', s') \<and> reason r = ''NOT FOUND'' \<longrightarrow>
        get_file_content svc path ref self s =
          (Inl (FileNotFoundError (''File '' @ quoted path @ '' on '' @ ref @ '' not found'') None),
           self', s'))
   \<and> (\<forall>m self' s'.
        call_project_api_raw svc [''raw'', ref, ''f'', path] True False None None None self s =
          (Inl (OurPagureRawRequest m), self', s') \<longrightarrow>
        get_file_content svc path ref self s =
          (Inl (FileNotFoundError (''Problem with getting file '' @ quoted path @ '' on '' @ ref)
                  (Some (OurPagureRawRequest m))),
           self', s'))
   \<and> (\<forall>r decoded self' s'.
        call_project_api_raw svc [''raw'', ref, ''f'', path] True False None None None self s =
          (Inr (Some r), self', s') \<and> reason r \<noteq> ''NOT FOUND''
          \<and> decode svc (content r) = Some decoded \<longrightarrow>
        get_file_content svc path ref self s = (Inr decoded, self', s'))"
proof (intro conjI allI impI)
  fix self' s'
  assume "call_project_api_raw svc [''raw'', ref, ''f'', path] True False None None None self s =
        (Inr None, self', s')"
  then show "get_file_content svc path ref self s =
        (Inl (FileNotFoundError (''File '' @ quoted path @ '' on '' @ ref @ '' not found'') None),
         self', s')"
    by (simp add: get_file_content_def except_OurPagureRawRequest_def seq_def raise_def)
next
  fix r self' s'
  assume "call_project_api_raw svc [''raw'', ref, ''f'', path] True False None None None self s =
          (Inr (Some r), self', s') \<and> reason r = ''NOT FOUND''"
  then show "get_file_content svc path ref self s =
        (Inl (FileNotFoundError (''File '' @ quoted path @ '' on '' @ ref @ '' not found'') None),
         self', s')"
    by (simp add: get_file_content_def except_OurPagureRawRequest_def seq_def raise_def)
next
  fix m self' s'
  assume "call_project_api_raw svc [''raw'', ref, ''f'', path] True False None None None self s =
          (Inl (OurPagureRawRequest m), self', s')"
  then show "get_file_content svc path ref self s =
          (Inl (FileNotFoundError (''Problem with getting file '' @ quoted path @ '' on '' @ ref)
                  (Some (OurPagureRawRequest m))),
           self', s')"
    by (simp add: get_file_content_def except_OurPagureRawRequest_def seq_def raise_def)
next
  fix r decoded self' s'
  assume "call_project_api_raw svc [''raw'', ref, ''f'', path] True False None None None self s =
          (Inr (Some r), self', s') \<and> reason r \<noteq> ''NOT FOUND''
          \<and> decode svc (content r) = Some decoded"
  then show "get_file_content svc path ref self s = (Inr decoded, self', s')"
    by (simp add: get_file_content_def except_OurPagureRawRequest_def seq_def ret_def)
qed


text \<open>
  C6, at the example forge: an absent response, a response \<open>NOT FOUND\<close>, a request that
  raises, and a file that is there.
\<close>

theorem get_file_content_not_found_witness:
  "fst (get_file_content (example_service False JNull) ''absent.txt'' ''master''
          (example_project False) []) =
     Inl (FileNotFoundError (''File '' @ quoted ''absent.txt'' @ '' on master not found'') None)
   \<and> fst (get_file_content (example_service False JNull) ''gone.txt'' ''master''
            (example_project False) []) =
       Inl (FileNotFoundError (''File '' @ quoted ''gone.txt'' @ '' on master not found'') None)
   \<and> fst (get_file_content (example_service False JNull) ''down.txt'' ''master''
            (example_project False) []) =
       Inl (FileNotFoundError (''Problem with getting file '' @ quoted ''down.txt'' @ '' on master'')
              (Some (OurPagureRawRequest ''connection refused'')))
   \<and> fst (get_file_content (example_service False JNull) ''README.md'' ''master''
            (example_project False) []) =
       Inr ''hello''"
proof -
  have r: "call_project_api_raw (example_service False JNull) [''raw'', ''master'', ''f'', p] True False
             None None None (example_project False) [] =
     (example_respond_raw []
        \<lparr>raw = True,
         req_url = Url [Some ''packit'', Some ''ogr'', Some ''raw'', Some ''master'', Some ''f'', Some p]
                     False,
         req_method = None, req_params = None, req_data = None\<rparr>,
      example_project False,
      [\<lparr>raw = True,
        req_url = Url [Some ''packit'', Some ''ogr'', Some ''raw'', Some ''master'', Some ''f'', Some p]
                    False,
        req_method = None, req_params = None, req_data = None\<rparr>])" for p
    by (simp add: run_defs example_service_def example_project_def PagureProject_def Let_def)
  have dec: "decode (example_service False JNull) x = Some x" for x
    by (simp add: example_service_def)
  have a: "fst (get_file_content (example_service False JNull) ''absent.txt'' ''master''
          (example_project False) []) =
     Inl (FileNotFoundError (''File '' @ quoted ''absent.txt'' @ '' on master not found'') None)"
    using get_file_content_not_found [of "example_service False JNull" "''master''" "''absent.txt''"
        "example_project False" "[]", THEN conjunct1, rule_format]
    by (simp add: r example_respond_raw_def)
  have b: "fst (get_file_content (example_service False JNull) ''gone.txt'' ''master''
            (example_project False) []) =
       Inl (FileNotFoundError (''File '' @ quoted ''gone.txt'' @ '' on master not found'') None)"
    using get_file_content_not_found [of "example_service False JNull" "''master''" "''gone.txt''"
        "example_project False" "[]", THEN conjunct2, THEN conjunct1, rule_format,
        of "\<lparr>ok = False, reason = ''NOT FOUND'', content = []\<rparr>"]
    by (simp add: r example_respond_raw_def)
  have c: "fst (get_file_content (example_service False JNull) ''down.txt'' ''master''
            (example_project False) []) =
       Inl (FileNotFoundError (''Problem with getting file '' @ quoted ''down.txt'' @ '' on master'')
              (Some (OurPagureRawRequest ''connection refused'')))"
    using get_file_content_not_found [of "example_service False JNull" "''master''" "''down.txt''"
        "example_project False" "[]", THEN conjunct2, THEN conjunct2, THEN conjunct1, rule_format,
        of "''connection refused''"]
    by (simp add: r example_respond_raw_def)
  have d: "fst (get_file_content (example_service False JNull) ''README.md'' ''master''
            (example_project False) []) =
       Inr ''hello''"
    using get_file_content_not_found [of "example_service False JNull" "''master''" "''README.md''"
        "example_project False" "[]", THEN conjunct2, THEN conjunct2, THEN conjunct2, rule_format,
        where r = "\<lparr>ok = True, reason = ''OK'', content = ''hello''\<rparr>" and decoded = "''hello''"]
    by (simp add: r example_respond_raw_def dec)
  from a b c d show ?thesis by blast
qed

section \<open>Is the project forked\<close>

lemma parent_none:
  "get_project_info svc f1 s2 = (Inr info, f2, s3) \<Longrightarrow> getitem info ''parent'' = Inr p \<Longrightarrow>
     \<not> truthy p \<Longrightarrow> parent svc f1 s2 = (Inr None, f2, s3)"
  by (simp add: parent_def get_is_fork_from_api_def seq_def lift_def ret_def)

lemma get_is_fork_from_api_True:
  "get_is_fork_from_api svc f1 s2 = (Inr True, f2, s3) \<Longrightarrow>
     \<exists>info p. get_project_info svc f1 s2 = (Inr info, f2, s3)
       \<and> getitem info ''parent'' = Inr p \<and> truthy p"
  unfolding get_is_fork_from_api_def
  by (subst (asm) seq_Inr_iff) (auto simp: seq_lift_Inr_iff ret_def)

lemma parent_Some:
  "parent svc f1 s2 = (Inr (Some pp), f2', s3') \<Longrightarrow>
     \<exists>info f2 s3 p. get_project_info svc f1 s2 = (Inr info, f2, s3)
       \<and> getitem info ''parent'' = Inr p \<and> truthy p"
  unfolding parent_def
  apply (subst (asm) seq_Inr_iff)
  apply (elim exE conjE)
  subgoal for b self1 s1
    by (cases b) (auto simp: ret_def dest: get_is_fork_from_api_True)
  done

lemma is_forked_Inr:
  assumes "is_forked svc self s = (Inr b, self', s')"
    and "construct_fork_project svc self s = (Inr f, self1, s1)"
    and "exists svc f s1 = (Inr True, f1, s2)"
  shows "\<exists>pp f2 s3. parent svc f1 s2 = (Inr (Some pp), f2, s3)"
proof (cases "parent svc f1 s2")
  case (fields r f2 s3)
  show ?thesis
  proof (cases r)
    case (Inl e)
    with assms fields show ?thesis
      by (simp add: is_forked_def seq_def on_obj_def)
  next
    case (Inr po)
    with assms fields show ?thesis
      by (cases po) (simp_all add: is_forked_def seq_def on_obj_def raise_def)
  qed
qed

text \<open>
  C10. When the user's fork exists (its \<open>exists\<close> probe returns true) and the fork's
  project info has no parent, the property \<open>parent\<close> gives \<open>None\<close> and \<open>is_forked\<close> raises
  \<open>AttributeError\<close> instead of returning \<open>False\<close>. So whenever \<open>is_forked\<close> returns a
  Boolean for a fork that exists, the fork's project info reports a parent.
\<close>

theorem is_forked_needs_parent:
  "(\<forall>f self1 s1 f1 s2 info f2 s3 p.
      construct_fork_project svc self s = (Inr f, self1, s1) \<longrightarrow>
      exists svc f s1 = (Inr True, f1, s2) \<longrightarrow>
      get_project_info svc f1 s2 = (Inr info, f2, s3) \<longrightarrow>
      getitem info ''parent'' = Inr p \<longrightarrow>
      \<not> truthy p \<longrightarrow>
      parent svc f1 s2 = (Inr None, f2, s3)
      \<and> is_forked svc self s = (Inl AttributeError, self1, s3))
   \<and> (\<forall>b self' s' f self1 s1 f1 s2.
        is_forked svc self s = (Inr b, self', s') \<longrightarrow>
        construct_fork_project svc self s = (Inr f, self1, s1) \<longrightarrow>
        exists svc f s1 = (Inr True, f1, s2) \<longrightarrow>
        (\<exists>info f2 s3 p. get_project_info svc f1 s2 = (Inr info, f2, s3)
           \<and> getitem info ''parent'' = Inr p \<and> truthy p))"
proof (intro conjI allI impI)
  fix f self1 s1 f1 s2 info f2 s3 p
  assume c: "construct_fork_project svc self s = (Inr f, self1, s1)"
    and e: "exists svc f s1 = (Inr True, f1, s2)"
    and i: "get_project_info svc f1 s2 = (Inr info, f2, s3)"
    and p: "getitem info ''parent'' = Inr p" "\<not> truthy p"
  from parent_none [OF i p] show n: "parent svc f1 s2 = (Inr None, f2, s3)" .
  from c e n show "is_forked svc self s = (Inl AttributeError, self1, s3)"
    by (simp add: is_forked_def seq_def on_obj_def raise_def)
next
  fix b self' s' f self1 s1 f1 s2
  assume "is_forked svc self s = (Inr b, self', s')"
    and "construct_fork_project svc self s = (Inr f, self1, s1)"
    and "exists svc f s1 = (Inr True, f1, s2)"
  from is_forked_Inr [OF this] obtain pp f2 s3 where "parent svc f1 s2 = (Inr (Some pp), f2, s3)"
    by blast
  from parent_Some [OF this]
  show "\<exists>info f2 s3 p. get_project_info svc f1 s2 = (Inr info, f2, s3)
           \<and> getitem info ''parent'' = Inr p \<and> truthy p" .
qed


text \<open>
  C10, at the example forge: with no parent in the project info \<open>is_forked\<close> raises
  after the probe and the project info request; with a parent it returns \<open>True\<close>.
\<close>

theorem is_forked_needs_parent_witness:
  "is_forked (example_service False JNull) (example_project False) [] =
     (Inl AttributeError, (example_project False)\<lparr>username := Some ''alice''\<rparr>,
      [\<lparr>raw = True,
        req_url = Url [Some ''fork'', Some ''alice'', Some ''packit'', Some ''ogr''] True,
        req_method = None, req_params = None, req_data = None\<rparr>,
       \<lparr>raw = False,
        req_url = Url [Some ''fork'', Some ''alice'', Some ''packit'', Some ''ogr''] True,
        req_method = Some ''GET'', req_params = None, req_data = None\<rparr>])
   \<and> fst (is_forked (example_service False (JDict [(''namespace'', JStr ''packit'')]))
            (example_project False) []) = Inr True
   \<and> (\<exists>info f2 s3 p.
        get_project_info (example_service False (JDict [(''namespace'', JStr ''packit'')]))
          ((example_project False)\<lparr>username := Some ''alice'', is_fork := True\<rparr>)
          [\<lparr>raw = True,
            req_url = Url [Some ''fork'', Some ''alice'', Some ''packit'', Some ''ogr''] True,
            req_method = None, req_params = None, req_data = None\<rparr>] = (Inr info, f2, s3)
        \<and> getitem info ''parent'' = Inr p \<and> truthy p)"
proof -
  let ?f = "(example_project False)\<lparr>username := Some ''alice'', is_fork := True\<rparr>"
  let ?q = "\<lparr>raw = True,
        req_url = Url [Some ''fork'', Some ''alice'', Some ''packit'', Some ''ogr''] True,
        req_method = None, req_params = None, req_data = None\<rparr>"
  let ?g = "\<lparr>raw = False,
        req_url = Url [Some ''fork'', Some ''alice'', Some ''packit'', Some ''ogr''] True,
        req_method = Some ''GET'', req_params = None, req_data = None\<rparr>"
  have c: "construct_fork_project (example_service False x) (example_project False) [] =
      (Inr ?f, (example_project False)\<lparr>username := Some ''alice''\<rparr>, [])" for x
    by (simp add: construct_fork_project_def run_defs example_service_def example_project_def
        PagureProject_def)
  have e: "exists (example_service False x) ?f [] = (Inr True, ?f, [?q])" for x
    by (simp add: exists_def run_defs example_service_def example_project_def PagureProject_def
        example_respond_raw_def)
  have i: "get_project_info (example_service False x) ?f [?q] = (Inr (example_info x), ?f, [?q, ?g])"
    for x
    by (simp add: run_defs example_service_def example_project_def PagureProject_def
        example_respond_def)
  have p: "getitem (example_info x) ''parent'' = Inr x" for x
    by (simp add: example_info_def)
  have n: "\<not> truthy JNull" by simp
  have one: "is_forked (example_service False JNull) (example_project False) [] =
     (Inl AttributeError, (example_project False)\<lparr>username := Some ''alice''\<rparr>, [?q, ?g])"
    using is_forked_needs_parent [of "example_service False JNull" "example_project False" "[]",
        THEN conjunct1, rule_format, OF c e i p n]
    by simp
  have two: "fst (is_forked (example_service False (JDict [(''namespace'', JStr ''packit'')]))
            (example_project False) []) = Inr True"
    by (simp add: is_forked_def parent_def get_is_fork_from_api_def construct_fork_project_def
        exists_def run_defs example_defs getitem2_def Let_def)
  then obtain self' s' where "is_forked (example_service False (JDict [(''namespace'', JStr ''packit'')]))
            (example_project False) [] = (Inr True, self', s')"
    by (metis prod.collapse)
  from is_forked_needs_parent [of "example_service False (JDict [(''namespace'', JStr ''packit'')])"
      "example_project False" "[]", THEN conjunct2, rule_format, OF this c e]
  have three: "\<exists>info f2 s3 p.
        get_project_info (example_service False (JDict [(''namespace'', JStr ''packit'')])) ?f [?q] =
          (Inr info, f2, s3)
        \<and> getitem info ''parent'' = Inr p \<and> truthy p" .
  from one two three show ?thesis by simp
qed

end
